theory Spec2Isabelle
  imports Main "HOL-Library.Sublist" "HOL-Library.AList"
begin

section \<open>Values, strings and the listing record\<close>

text \<open>
  The scanner of \<^verbatim>\<open>scrapper.py\<close> works on Python dictionaries read from JSON and
  HTML, and the Python type of a value read from a site's JSON is not fixed by the code.
  An identifier is a \<open>pyval\<close>: \<^verbatim>\<open>None\<close>, a boolean, an integer or a string. A price
  or a number of bedrooms is a \<open>pyobj\<close>: any value that \<^verbatim>\<open>json.loads\<close> returns. A
  float is given by what \<^verbatim>\<open>int()\<close> makes of it: the integer it truncates to when it
  is finite, or not-a-number, or an infinity (\<^verbatim>\<open>json.loads\<close> reads \<^verbatim>\<open>1e999\<close> as
  infinity). \<open>Container\<close> is a list or a dictionary.
\<close>

datatype pyval = VNone | VBool bool | VInt int | VStr string

datatype pyfloat = Finite int | NaN | PosInf | NegInf

datatype pyobj = Scalar pyval | Float pyfloat | Container

text \<open>The exceptions that \<^verbatim>\<open>int()\<close> raises.\<close>

datatype py_error = ValueError | TypeError | OverflowError

text \<open>Text is ASCII: \<^verbatim>\<open>str.lower()\<close> maps the letters A-Z and leaves every other byte.\<close>

definition lower_char :: "char \<Rightarrow> char" where
  "lower_char c =
     (case map_of (zip ''ABCDEFGHIJKLMNOPQRSTUVWXYZ'' ''abcdefghijklmnopqrstuvwxyz'') c of
        Some d \<Rightarrow> d
      | None \<Rightarrow> c)"

definition lower :: "string \<Rightarrow> string" where
  "lower s = map lower_char s"

text \<open>Python's \<^verbatim>\<open>k in s\<close> on strings: \<open>k\<close> occurs in \<open>s\<close> as a contiguous run.\<close>

definition py_in :: "string \<Rightarrow> string \<Rightarrow> bool" where
  "py_in k s = sublist k s"

text \<open>
  \<^verbatim>\<open>int(s)\<close> on a string: surrounding whitespace is dropped, one sign is allowed, and
  the rest is decimal digits, where single underscores may stand between digits.
  \<open>None\<close> is the \<^verbatim>\<open>ValueError\<close>.
\<close>

definition is_space :: "char \<Rightarrow> bool" where
  "is_space c =
     (c \<in> set [CHR '' '', CHR 0x09, CHR 0x0A, CHR 0x0B, CHR 0x0C, CHR 0x0D,
                CHR 0x1C, CHR 0x1D, CHR 0x1E, CHR 0x1F])"

definition is_digit :: "char \<Rightarrow> bool" where
  "is_digit c = (c \<in> set ''0123456789'')"

definition digit_value :: "char \<Rightarrow> nat" where
  "digit_value c =
     (case map_of (zip ''0123456789'' [0, 1, 2, 3, 4, 5, 6, 7, 8, 9]) c of
        Some n \<Rightarrow> n
      | None \<Rightarrow> 0)"

definition strip :: "string \<Rightarrow> string" where
  "strip s = rev (dropWhile is_space (rev (dropWhile is_space s)))"

fun digits_ok :: "string \<Rightarrow> bool" where
  "digits_ok [] = False"
| "digits_ok [c] = is_digit c"
| "digits_ok (c # d # cs) =
     (if is_digit c then (if d = CHR ''_'' then digits_ok cs else digits_ok (d # cs)) else False)"

definition digits_value :: "string \<Rightarrow> nat" where
  "digits_value s =
     foldl (\<lambda>acc c. 10 * acc + digit_value c) 0 (filter is_digit s)"

definition int_of_string :: "string \<Rightarrow> int option" where
  "int_of_string s =
     (case strip s of
        [] \<Rightarrow> None
      | c # cs \<Rightarrow>
          if c = CHR ''-'' then (if digits_ok cs then Some (- int (digits_value cs)) else None)
          else if c = CHR ''+'' then (if digits_ok cs then Some (int (digits_value cs)) else None)
          else if digits_ok (c # cs) then Some (int (digits_value (c # cs))) else None)"

text \<open>
  \<^verbatim>\<open>int(v)\<close>. A string that is no integer and not-a-number raise \<^verbatim>\<open>ValueError\<close>;
  \<^verbatim>\<open>None\<close>, a list and a dictionary raise \<^verbatim>\<open>TypeError\<close>; an infinity raises
  \<^verbatim>\<open>OverflowError\<close>.
\<close>

fun py_int :: "pyobj \<Rightarrow> py_error + int" where
  "py_int (Scalar VNone) = Inl TypeError"
| "py_int (Scalar (VBool b)) = Inr (if b then 1 else 0)"
| "py_int (Scalar (VInt n)) = Inr n"
| "py_int (Scalar (VStr s)) = (case int_of_string s of None \<Rightarrow> Inl ValueError | Some n \<Rightarrow> Inr n)"
| "py_int (Float (Finite n)) = Inr n"
| "py_int (Float NaN) = Inl ValueError"
| "py_int (Float PosInf) = Inl OverflowError"
| "py_int (Float NegInf) = Inl OverflowError"
| "py_int Container = Inl TypeError"

text \<open>
  The text that \<^verbatim>\<open>{e}\<close> prints for the exception in a log line. The first two texts
  go on with the rejected value and the name of its type, which are left out; only the
  third exception ever reaches a log line.
\<close>

fun error_text :: "py_error \<Rightarrow> string" where
  "error_text ValueError = ''invalid literal for int() with base 10''"
| "error_text TypeError = ''int() argument must be a string, a bytes-like object or a real number''"
| "error_text OverflowError = ''cannot convert float infinity to integer''"

text \<open>Decimal text of a number, as \<^verbatim>\<open>str()\<close> and an f-string print it.\<close>

fun digits_of :: "nat \<Rightarrow> string" where
  "digits_of n =
     (if n < 10 then [''0123456789'' ! n]
      else digits_of (n div 10) @ [''0123456789'' ! (n mod 10)])"

declare digits_of.simps [simp del]

definition str_of_int :: "int \<Rightarrow> string" where
  "str_of_int i = (if i < 0 then CHR ''-'' # digits_of (nat (- i)) else digits_of (nat i))"

fun py_str :: "pyval \<Rightarrow> string" where
  "py_str VNone = ''None''"
| "py_str (VBool b) = (if b then ''True'' else ''False'')"
| "py_str (VInt n) = str_of_int n"
| "py_str (VStr s) = s"

text \<open>Truth value of a scalar, as \<^verbatim>\<open>if not v\<close> tests it.\<close>

fun py_truthy :: "pyval \<Rightarrow> bool" where
  "py_truthy VNone = False"
| "py_truthy (VBool b) = b"
| "py_truthy (VInt n) = (n \<noteq> 0)"
| "py_truthy (VStr s) = (s \<noteq> [])"

text \<open>
  A listing is the dictionary the adapters build. \<open>description\<close> and \<open>images\<close> are the
  two keys that some adapters leave out.
\<close>

record listing =
  listing_id :: string
  title :: string
  price :: pyobj
  price_text :: string
  address :: string
  bedrooms :: pyobj
  description :: "string option"
  link :: string
  images :: "string list option"
  source :: string

section \<open>Configuration\<close>

record filters =
  keywords_list :: "string list"
  exclude_keywords :: "string list"
  min_price :: "int option"
  max_price :: "int option"
  min_beds :: "int option"
  max_beds :: "int option"

text \<open>\<open>enabled\<close> is \<open>None\<close> when the site's entry has no \<^verbatim>\<open>"enabled"\<close> key.\<close>

record site_config =
  enabled :: "bool option"

record email_config =
  sender :: string
  recipient :: string
  smtp_server :: string
  smtp_port :: "int option"
  username :: string
  password :: string

text \<open>
  The config dictionary. \<open>sites\<close> keeps the order of the JSON object, which the loop of
  \<^verbatim>\<open>_get_enabled_sites\<close> follows. A missing \<^verbatim>\<open>"filters"\<close> or \<^verbatim>\<open>"debug"\<close>
  entry reads as its defaults, a missing email entry as \<open>None\<close>.
\<close>

record config =
  sort_type :: "string option"
  sites :: "(string \<times> site_config) list"
  cfg_filters :: filters
  email :: "email_config option"
  bypass_seen_check :: bool

definition no_filters :: filters where
  "no_filters = \<lparr>keywords_list = [], exclude_keywords = [], min_price = None, max_price = None,
     min_beds = None, max_beds = None\<rparr>"

text \<open>The empty dictionary \<^verbatim>\<open>{}\<close> that \<^verbatim>\<open>_load_config\<close> returns on failure.\<close>

definition empty_config :: config where
  "empty_config = \<lparr>sort_type = None, sites = [], cfg_filters = no_filters, email = None,
     bypass_seen_check = False\<rparr>"

section \<open>The filter engine: \<^verbatim>\<open>_meets_criteria\<close>\<close>

definition listing_text :: "listing \<Rightarrow> string" where
  "listing_text l =
     lower (title l @ '' '' @ address l @ '' '' @
            (case description l of None \<Rightarrow> [] | Some d \<Rightarrow> d))"

text \<open>The loop over the exclude keywords: the first hit returns \<open>False\<close> from the function.\<close>

fun exclude_hit :: "string list \<Rightarrow> string \<Rightarrow> bool" where
  "exclude_hit [] text = False"
| "exclude_hit (k # ks) text = (if py_in (lower k) text then True else exclude_hit ks text)"

definition matches_keyword :: "string list \<Rightarrow> string \<Rightarrow> bool" where
  "matches_keyword ks text = list_ex (\<lambda>k. py_in (lower k) text) ks"

text \<open>
  The price block and the bedrooms block. Each is \<open>Inr True\<close> when the function goes
  on and \<open>Inr False\<close> when it returns \<open>False\<close>. The \<^verbatim>\<open>except\<close> clause of the block
  names \<^verbatim>\<open>ValueError\<close> and \<^verbatim>\<open>TypeError\<close>: a value that \<^verbatim>\<open>int()\<close> rejects with
  one of them is passed over, and any other exception leaves the function, which is
  \<open>Inl\<close>.
\<close>

definition bound_check :: "int option \<Rightarrow> int option \<Rightarrow> pyobj \<Rightarrow> py_error + bool" where
  "bound_check lo hi v =
     (if lo \<noteq> None \<or> hi \<noteq> None then
        (case py_int v of
           Inl e \<Rightarrow> if e = ValueError \<or> e = TypeError then Inr True else Inl e
         | Inr n \<Rightarrow>
             if (case lo of None \<Rightarrow> False | Some m \<Rightarrow> n < m) then Inr False
             else if (case hi of None \<Rightarrow> False | Some m \<Rightarrow> n > m) then Inr False
             else Inr True)
      else Inr True)"

definition price_check :: "filters \<Rightarrow> listing \<Rightarrow> py_error + bool" where
  "price_check fs l = bound_check (min_price fs) (max_price fs) (price l)"

definition beds_check :: "filters \<Rightarrow> listing \<Rightarrow> py_error + bool" where
  "beds_check fs l = bound_check (min_beds fs) (max_beds fs) (bedrooms l)"

text \<open>\<^verbatim>\<open>_meets_criteria\<close>: \<open>Inr\<close> is the value returned, \<open>Inl\<close> the exception raised.\<close>

definition meets_criteria :: "config \<Rightarrow> listing \<Rightarrow> py_error + bool" where
  "meets_criteria cfg l =
     (let fs = cfg_filters cfg; text = listing_text l in
      if exclude_hit (exclude_keywords fs) text then Inr False
      else if keywords_list fs \<noteq> [] \<and> \<not> matches_keyword (keywords_list fs) text then Inr False
      else (case price_check fs l of
              Inl e \<Rightarrow> Inl e
            | Inr price_ok \<Rightarrow>
                if \<not> price_ok then Inr False
                else (case beds_check fs l of
                        Inl e \<Rightarrow> Inl e
                      | Inr beds_ok \<Rightarrow> if \<not> beds_ok then Inr False else Inr True)))"

section \<open>Exceptions, log records and effects\<close>

text \<open>An exception, with the text that \<^verbatim>\<open>{e}\<close> prints in a log line.\<close>

datatype exn = Exn string

fun exn_text :: "exn \<Rightarrow> string" where
  "exn_text (Exn m) = m"

datatype level = INFO | WARNING | ERROR

record message =
  msg_from :: string
  msg_to :: string
  msg_subject :: string
  msg_body :: string

text \<open>
  What a run does to the outside: log records, a mail handed to the SMTP server, lines
  printed on the console, and the write of the Dedup Store file.
\<close>

datatype event =
    Log level string
  | EmailSent message
  | Printed string
  | SeenSaved

text \<open>
  Lines that print a whole dictionary (\<^verbatim>\<open>Loaded config: {config}\<close>,
  \<^verbatim>\<open>Sites from config: {sites}\<close>, \<^verbatim>\<open>Checking site ...\<close>) are not part of the
  trace; every other log line of the orchestrator is.
\<close>

definition str_of_nat :: "nat \<Rightarrow> string" where
  "str_of_nat n = digits_of n"

section \<open>The orchestrator: \<^verbatim>\<open>PropertyScanner\<close>\<close>

text \<open>
  An adapter, as the orchestrator sees it: its three stage methods. A stage that raises
  returns \<open>Inl\<close>. The registry \<open>adapters\<close> is keyed by site name.
\<close>

record adapter =
  build_url :: "exn + string"
  adapter_fetch :: "string \<Rightarrow> exn + string"
  parse_listings :: "string \<Rightarrow> exn + listing list"

record scanner =
  sc_config :: config
  seen_listings :: "string \<rightharpoonup> string"
  adapters :: "string \<rightharpoonup> adapter"

text \<open>
  The outside of a run: the outcome of reading the config file, of reading the Dedup
  Store file (\<open>None\<close> when the file does not exist), of writing it and of sending a
  mail, and the clock, whose \<open>n\<close>-th reading is \<open>now n\<close>.
\<close>

record world =
  read_config :: "exn + config"
  read_seen :: "(exn + (string \<rightharpoonup> string)) option"
  write_seen :: "(string \<rightharpoonup> string) \<Rightarrow> exn + unit"
  smtp :: "email_config \<Rightarrow> message \<Rightarrow> exn + unit"
  now :: "nat \<Rightarrow> string"

definition load_config_scanner :: "world \<Rightarrow> config \<times> event list" where
  "load_config_scanner w =
     (case read_config w of
        Inr c \<Rightarrow> (c, [Log INFO ''Loading config''])
      | Inl e \<Rightarrow>
          (empty_config,
           [Log INFO ''Loading config'', Log ERROR (''Failed to load config: '' @ exn_text e)]))"

definition load_seen_listings :: "world \<Rightarrow> (string \<rightharpoonup> string) \<times> event list" where
  "load_seen_listings w =
     (case read_seen w of
        None \<Rightarrow> (Map.empty, [])
      | Some (Inr m) \<Rightarrow> (m, [])
      | Some (Inl e) \<Rightarrow>
          (Map.empty, [Log ERROR (''Failed to load seen listings: '' @ exn_text e)]))"

definition save_seen_listings :: "world \<Rightarrow> scanner \<Rightarrow> event list" where
  "save_seen_listings w sc =
     (case write_seen w (seen_listings sc) of
        Inr u \<Rightarrow> [SeenSaved]
      | Inl e \<Rightarrow> [Log ERROR (''Failed to save seen listings: '' @ exn_text e)])"

text \<open>
  \<^verbatim>\<open>PropertyScanner.__init__\<close>. The registry is a parameter: the five adapter objects
  are built from the loaded config.
\<close>

definition init_scanner ::
  "world \<Rightarrow> (config \<Rightarrow> string \<rightharpoonup> adapter) \<Rightarrow> scanner \<times> event list" where
  "init_scanner w registry =
     (let (c, ev1) = load_config_scanner w;
          (seen, ev2) = load_seen_listings w
      in (\<lparr>sc_config = c, seen_listings = seen, adapters = registry c\<rparr>,
          ev1 @ ev2 @
          [Log INFO (''Using sort type: '' @
             (case sort_type c of None \<Rightarrow> ''default'' | Some t \<Rightarrow> t))]))"

subsection \<open>\<^verbatim>\<open>_get_enabled_sites\<close>\<close>

fun enabled_loop :: "(string \<times> site_config) list \<Rightarrow> string list \<Rightarrow> string list" where
  "enabled_loop [] enabled_sites = enabled_sites"
| "enabled_loop ((site, site_cfg) # rest) enabled_sites =
     (if (case enabled site_cfg of None \<Rightarrow> True | Some b \<Rightarrow> b)
      then enabled_loop rest (enabled_sites @ [site])
      else enabled_loop rest enabled_sites)"

definition get_enabled_sites :: "config \<Rightarrow> string list" where
  "get_enabled_sites cfg =
     (let enabled_sites = enabled_loop (sites cfg) []
      in if enabled_sites = [] then [''rightmove''] else enabled_sites)"

subsection \<open>\<^verbatim>\<open>fetch_listings\<close>\<close>

definition failed_line :: "string \<Rightarrow> exn \<Rightarrow> event" where
  "failed_line site_name e =
     Log ERROR (''Failed to fetch listings from '' @ site_name @ '': '' @ exn_text e)"

definition fetching_line :: "scanner \<Rightarrow> string \<Rightarrow> event" where
  "fetching_line sc site_name =
     Log INFO (''Fetching from '' @ site_name @ '' with sort type: '' @
       (case sort_type (sc_config sc) of None \<Rightarrow> ''default'' | Some t \<Rightarrow> t) @ ''...'')"

text \<open>
  The body of the loop for one site: the listings to append and the log lines. An
  exception of any stage is caught by the \<^verbatim>\<open>except\<close> of the loop body.
\<close>

definition fetch_site :: "scanner \<Rightarrow> string \<Rightarrow> listing list \<times> event list" where
  "fetch_site sc site_name =
     (case adapters sc (lower site_name) of
        None \<Rightarrow> ([], [Log WARNING (''No adapter available for '' @ site_name)])
      | Some a \<Rightarrow>
          (case build_url a of
             Inl e \<Rightarrow> ([], [fetching_line sc site_name, failed_line site_name e])
           | Inr url \<Rightarrow>
               (case adapter_fetch a url of
                  Inl e \<Rightarrow> ([], [fetching_line sc site_name, failed_line site_name e])
                | Inr raw_data \<Rightarrow>
                    (case parse_listings a raw_data of
                       Inl e \<Rightarrow> ([], [fetching_line sc site_name, failed_line site_name e])
                     | Inr site_listings \<Rightarrow>
                         (site_listings,
                          [fetching_line sc site_name,
                           Log INFO (''Found '' @ str_of_nat (length site_listings) @
                             '' listings from '' @ site_name)])))))"

fun fetch_loop ::
  "scanner \<Rightarrow> string list \<Rightarrow> listing list \<Rightarrow> event list \<Rightarrow> listing list \<times> event list" where
  "fetch_loop sc [] all_listings evs = (all_listings, evs)"
| "fetch_loop sc (site_name # rest) all_listings evs =
     (let (site_listings, ev) = fetch_site sc site_name
      in fetch_loop sc rest (all_listings @ site_listings) (evs @ ev))"

definition fetch_listings :: "scanner \<Rightarrow> listing list \<times> event list" where
  "fetch_listings sc = fetch_loop sc (get_enabled_sites (sc_config sc)) [] []"

subsection \<open>\<^verbatim>\<open>filter_listings\<close>\<close>

text \<open>
  The loop threads the Dedup Store, the result list and the number of clock readings
  made so far; \<^verbatim>\<open>datetime.now()\<close> is read once for each registered listing. The
  store is changed in place, so when \<^verbatim>\<open>_meets_criteria\<close> raises, the exception
  leaves the method and the store keeps the entries made until then.
\<close>

fun filter_loop ::
  "config \<Rightarrow> (nat \<Rightarrow> string) \<Rightarrow> listing list \<Rightarrow> (string \<rightharpoonup> string) \<Rightarrow> listing list \<Rightarrow> nat
   \<Rightarrow> (py_error + listing list) \<times> (string \<rightharpoonup> string)" where
  "filter_loop cfg clock [] seen filtered_listings t = (Inr filtered_listings, seen)"
| "filter_loop cfg clock (l # rest) seen filtered_listings t =
     (if seen (listing_id l) \<noteq> None \<and> \<not> bypass_seen_check cfg
      then filter_loop cfg clock rest seen filtered_listings t
      else (case meets_criteria cfg l of
              Inl e \<Rightarrow> (Inl e, seen)
            | Inr ok \<Rightarrow>
                if ok
                then filter_loop cfg clock rest (seen(listing_id l \<mapsto> clock t))
                       (filtered_listings @ [l]) (Suc t)
                else filter_loop cfg clock rest seen filtered_listings t))"

definition filter_listings ::
  "config \<Rightarrow> (nat \<Rightarrow> string) \<Rightarrow> (string \<rightharpoonup> string) \<Rightarrow> listing list
   \<Rightarrow> (py_error + listing list) \<times> (string \<rightharpoonup> string)" where
  "filter_listings cfg clock seen listings = filter_loop cfg clock listings seen [] 0"

subsection \<open>The notifier\<close>

definition mail_body :: "listing list \<Rightarrow> string" where
  "mail_body listings =
     ''New properties found:'' @ [CHR 0x0A, CHR 0x0A] @
     concat (map (\<lambda>l. title l @ '' - '' @ price_text l @ '' - '' @ address l @ '' - ['' @
                        source l @ '']'' @ [CHR 0x0A] @
                      ''Link: '' @ link l @ [CHR 0x0A, CHR 0x0A]) listings)"

text \<open>\<^verbatim>\<open>_send_email\<close>: \<open>Inl\<close> is the exception it raises again; \<open>t\<close> is the clock reading.\<close>

definition send_email :: "world \<Rightarrow> config \<Rightarrow> nat \<Rightarrow> listing list \<Rightarrow> exn + event list" where
  "send_email w cfg t listings =
     (case email cfg of
        None \<Rightarrow> Inr [Log WARNING ''No email configuration found'']
      | Some ec \<Rightarrow>
          (let m = \<lparr>msg_from = sender ec, msg_to = recipient ec,
                     msg_subject = ''New Properties Found: '' @ str_of_nat (length listings) @
                       '' at '' @ now w t,
                     msg_body = mail_body listings\<rparr>
           in case smtp w ec m of
                Inr u \<Rightarrow> Inr [EmailSent m, Log INFO ''Email notification sent successfully!'']
              | Inl e \<Rightarrow> Inl (Exn (''Failed to send email: '' @ exn_text e))))"

definition print_listings :: "listing list \<Rightarrow> event list" where
  "print_listings listings =
     [Log INFO ''Printing listings:''] @
     concat (map (\<lambda>l. [Printed (title l @ '' - '' @ price_text l @ '' - '' @ address l),
                        Printed (''Link: '' @ link l), Printed []]) (take 5 listings)) @
     (if length listings > 5
      then [Printed (''... and '' @ str_of_nat (length listings - 5) @ '' more listings'')]
      else [])"

definition notify_user :: "world \<Rightarrow> config \<Rightarrow> nat \<Rightarrow> listing list \<Rightarrow> event list" where
  "notify_user w cfg t listings =
     (case send_email w cfg t listings of
        Inr evs \<Rightarrow> evs
      | Inl e \<Rightarrow>
          Log ERROR (''Failed to send notification: '' @ exn_text e) # print_listings listings)"

subsection \<open>\<^verbatim>\<open>run_scraper\<close>\<close>

text \<open>
  The method returns no value: the model returns the scanner after the run and the trace.
  In the source the call \<^verbatim>\<open>self.notify_user(filtered_listings)\<close> is a comment between
  the two log lines of the \<^verbatim>\<open>if filtered_listings\<close> block, so the block only logs.
  An exception of \<^verbatim>\<open>filter_listings\<close> is caught by the \<^verbatim>\<open>except\<close> of the method,
  which logs it; the Dedup Store is then not written.
\<close>

definition run_scraper :: "world \<Rightarrow> scanner \<Rightarrow> scanner \<times> event list" where
  "run_scraper w sc =
     (let (listings, ev_fetch) = fetch_listings sc;
          (result, seen') =
             filter_listings (sc_config sc) (now w) (seen_listings sc) listings;
          sc' = sc\<lparr>seen_listings := seen'\<rparr>;
          ev_start =
            [Log INFO ''Fetching listings...''] @ ev_fetch @
            [Log INFO (''Found '' @ str_of_nat (length listings) @ '' listings''),
             Log INFO ''Filtering listings...'',
             Log INFO (''Starting filtering with '' @ str_of_nat (length listings) @ '' listings'')]
      in case result of
           Inl e \<Rightarrow> (sc', ev_start @ [Log ERROR (''Error running scraper: '' @ error_text e)])
         | Inr filtered_listings \<Rightarrow>
             (sc',
              ev_start @
              [Log INFO (''Filtered to '' @ str_of_nat (length filtered_listings) @ '' listings'')] @
              (if filtered_listings \<noteq> []
               then [Log INFO ''Notifying user...'', Log INFO ''User notified'']
               else []) @
              save_seen_listings w sc' @
              [Log INFO ''Seen listings saved'']))"

text \<open>An event of the notifier: a mail sent or a line printed on the console.\<close>

fun is_notification :: "event \<Rightarrow> bool" where
  "is_notification (EmailSent m) = True"
| "is_notification (Printed s) = True"
| "is_notification (Log lv s) = False"
| "is_notification SeenSaved = False"

subsection \<open>The command-line wrapper: \<^verbatim>\<open>run_scraper.py\<close>\<close>

text \<open>
  \<^verbatim>\<open>main\<close> reads the config file itself before it builds the scanner, and leaves the
  process with status 1 when that fails. The scanner then reads the same file again.
  The \<^verbatim>\<open>--log\<close> option and the lines that print times are left out.
\<close>

datatype outcome = Exit nat | Completed scanner

definition load_config_cli :: "world \<Rightarrow> (nat + config) \<times> event list" where
  "load_config_cli w =
     (case read_config w of
        Inr c \<Rightarrow> (Inr c, [])
      | Inl e \<Rightarrow> (Inl 1, [Printed (''Error loading config file: '' @ exn_text e)]))"

definition main ::
  "world \<Rightarrow> (config \<Rightarrow> string \<rightharpoonup> adapter) \<Rightarrow> outcome \<times> event list" where
  "main w registry =
     (case load_config_cli w of
        (Inl code, ev) \<Rightarrow> (Exit code, ev)
      | (Inr c, ev) \<Rightarrow>
          (let (sc, ev1) = init_scanner w registry;
               (sc', ev2) = run_scraper w sc
           in (Completed sc', ev @ ev1 @ ev2)))"

section \<open>The site adapters\<close>

datatype site = Rightmove | Zoopla | Spareroom | OnTheMarket | OpenRent

text \<open>The value of the \<^verbatim>\<open>"source"\<close> key that each adapter writes into its listings.\<close>

fun site_name :: "site \<Rightarrow> string" where
  "site_name Rightmove = ''rightmove''"
| "site_name Zoopla = ''zoopla''"
| "site_name Spareroom = ''spareroom''"
| "site_name OnTheMarket = ''onthemarket''"
| "site_name OpenRent = ''openrent''"

subsection \<open>The fetch stage\<close>

text \<open>
  A request is the URL and the header dictionary given to \<^verbatim>\<open>get\<close>. The network answers
  a request with a response or an exception, and the answer may depend on the requests
  sent before (cookies of the session, blocking by the site). The politeness delay is
  real time and the log lines of this stage are left out: a fetch returns its result and
  the list of all requests sent so far.
\<close>

type_synonym headers = "(string \<times> string) list"

record request =
  req_url :: string
  req_headers :: headers

record response =
  status_code :: int
  response_text :: string

type_synonym network = "request list \<Rightarrow> request \<Rightarrow> exn + response"

definition default_user_agent :: string where
  "default_user_agent =
     ''Mozilla/5.0 (Macintosh; Intel Mac OS X 10_15_7) AppleWebKit/537.36 (KHTML, like Gecko) Chrome/120.0.0.0 Safari/537.36''"

definition alt_user_agent :: string where
  "alt_user_agent =
     ''Mozilla/5.0 (Windows NT 10.0; Win64; x64) AppleWebKit/537.36 (KHTML, like Gecko) Chrome/120.0.0.0 Safari/537.36''"

definition base_headers :: headers where
  "base_headers =
     [(''User-Agent'', default_user_agent),
      (''Accept'', ''text/html,application/xhtml+xml,application/xml;q=0.9,image/avif,image/webp,*/*;q=0.8''),
      (''Accept-Language'', ''en-US,en;q=0.5''),
      (''Accept-Encoding'', ''gzip, deflate, br''),
      (''Connection'', ''keep-alive'')]"

text \<open>
  The header dictionary that \<^verbatim>\<open>ZooplaAdapter.__init__\<close> installs; \<open>dq s\<close> is
  \<open>s\<close> between double quotes.
\<close>

definition dq :: "string \<Rightarrow> string" where
  "dq s = CHR 0x22 # s @ [CHR 0x22]"

definition zoopla_headers :: headers where
  "zoopla_headers =
     [(''User-Agent'', default_user_agent),
      (''Accept'', ''text/html,application/xhtml+xml,application/xml;q=0.9,image/avif,image/webp,image/apng,*/*;q=0.8,application/signed-exchange;v=b3;q=0.7''),
      (''Accept-Language'', ''en-US,en;q=0.9''),
      (''Accept-Encoding'', ''gzip, deflate, br''),
      (''Referer'', ''https://www.zoopla.co.uk/''),
      (''sec-ch-ua'', dq ''Google Chrome'' @ '';v='' @ dq ''120'' @ '', '' @ dq ''Chromium'' @
         '';v='' @ dq ''120'' @ '', '' @ dq ''Not=A?Brand'' @ '';v='' @ dq ''99''),
      (''sec-ch-ua-mobile'', ''?0''),
      (''sec-ch-ua-platform'', dq ''macOS''),
      (''sec-fetch-dest'', ''document''),
      (''sec-fetch-mode'', ''navigate''),
      (''sec-fetch-site'', ''same-origin''),
      (''sec-fetch-user'', ''?1''),
      (''Connection'', ''keep-alive''),
      (''Cookie'', []),
      (''Upgrade-Insecure-Requests'', ''1'')]"

definition user_agent :: "request \<Rightarrow> string option" where
  "user_agent r = map_of (req_headers r) ''User-Agent''"

text \<open>\<^verbatim>\<open>BaseAdapter.fetch_listings\<close>: one \<^verbatim>\<open>requests.get\<close>, whatever the status.\<close>

definition base_fetch_listings ::
  "headers \<Rightarrow> network \<Rightarrow> request list \<Rightarrow> string \<Rightarrow> (exn + string) \<times> request list" where
  "base_fetch_listings hdrs net hist url =
     (let r = \<lparr>req_url = url, req_headers = hdrs\<rparr>
      in (case net hist r of
            Inl e \<Rightarrow> Inl e
          | Inr resp \<Rightarrow> Inr (response_text resp),
          hist @ [r]))"

text \<open>
  \<^verbatim>\<open>RightmoveAdapter.fetch_listings\<close> and \<^verbatim>\<open>ZooplaAdapter.fetch_listings\<close> are the same
  code up to the home page and the header dictionary: the home page, then the search
  page, and on status 403 the search page once more with the other User-Agent. Every
  exception is caught and the empty string returned.
\<close>

definition session_fetch_listings ::
  "string \<Rightarrow> headers \<Rightarrow> network \<Rightarrow> request list \<Rightarrow> string \<Rightarrow> (exn + string) \<times> request list" where
  "session_fetch_listings home hdrs net hist url =
     (let r0 = \<lparr>req_url = home, req_headers = hdrs\<rparr>;
          r1 = \<lparr>req_url = url, req_headers = hdrs\<rparr>;
          alt_headers = AList.update ''User-Agent'' alt_user_agent hdrs;
          r2 = \<lparr>req_url = url, req_headers = alt_headers\<rparr>
      in case net hist r0 of
           Inl e \<Rightarrow> (Inr [], hist @ [r0])
         | Inr cookies \<Rightarrow>
             (case net (hist @ [r0]) r1 of
                Inl e \<Rightarrow> (Inr [], hist @ [r0, r1])
              | Inr resp \<Rightarrow>
                  if status_code resp = 403
                  then (case net (hist @ [r0, r1]) r2 of
                          Inl e \<Rightarrow> (Inr [], hist @ [r0, r1, r2])
                        | Inr resp2 \<Rightarrow> (Inr (response_text resp2), hist @ [r0, r1, r2]))
                  else (Inr (response_text resp), hist @ [r0, r1])))"

text \<open>
  The header dictionary of each adapter object, and the home page that the two adapters
  with a \<^verbatim>\<open>fetch_listings\<close> of their own visit first. The other three classes inherit
  the method of \<^verbatim>\<open>BaseAdapter\<close>.
\<close>

fun site_headers :: "site \<Rightarrow> headers" where
  "site_headers Zoopla = zoopla_headers"
| "site_headers s = base_headers"

fun site_home :: "site \<Rightarrow> string option" where
  "site_home Rightmove = Some ''https://www.rightmove.co.uk/''"
| "site_home Zoopla = Some ''https://www.zoopla.co.uk/''"
| "site_home s = None"

definition site_fetch_listings ::
  "site \<Rightarrow> network \<Rightarrow> request list \<Rightarrow> string \<Rightarrow> (exn + string) \<times> request list" where
  "site_fetch_listings s =
     (case site_home s of
        Some home \<Rightarrow> session_fetch_listings home (site_headers s)
      | None \<Rightarrow> base_fetch_listings (site_headers s))"

text \<open>The requests of a trace that carry the alternate client identity.\<close>

definition retries :: "request list \<Rightarrow> request list" where
  "retries trace = filter (\<lambda>r. user_agent r = Some alt_user_agent) trace"

subsection \<open>The parse stage\<close>

text \<open>
  BeautifulSoup and the JSON reader are libraries. A document is what the selectors of an
  adapter find in it: the candidate cards of the HTML tree and the property objects of
  the embedded JSON. For each candidate the model keeps what decides the identifier (the
  attributes read, the link searched by the regular expression) and, as \<open>fields\<close>, the
  other values that the body of the \<^verbatim>\<open>try\<close> block extracts, or the exception it stops
  with.
\<close>

record fields =
  f_title :: string
  f_price :: pyobj
  f_price_text :: string
  f_address :: string
  f_bedrooms :: pyobj
  f_description :: string
  f_link :: string
  f_images :: "string list"

record card =
  card_attrs :: "string \<rightharpoonup> string"
  details_href :: "string option"
  parent_li_attrs :: "(string \<rightharpoonup> string) option"
  carousel_attrs :: "(string \<rightharpoonup> string) option"
  clock_text :: string
  card_fields :: "exn + fields"

record json_prop =
  prop_id :: "pyval option"
  prop_listing_id :: "pyval option"
  prop_images :: "string list option"
  prop_fields :: "exn + fields"

record document =
  cards :: "card list"
  props :: "json_prop list"

text \<open>\<^verbatim>\<open>card.get(k, '')\<close>.\<close>

definition get_attr :: "(string \<rightharpoonup> string) \<Rightarrow> string \<Rightarrow> string" where
  "get_attr attrs k = (case attrs k of None \<Rightarrow> [] | Some v \<Rightarrow> v)"

text \<open>
  \<^verbatim>\<open>re.search\<close> for \<^verbatim>\<open>/details/\<close> followed by one or more characters of a class:
  the group of the leftmost match.
\<close>

fun search_details :: "(char \<Rightarrow> bool) \<Rightarrow> string \<Rightarrow> string option" where
  "search_details ok [] = None"
| "search_details ok (c # cs) =
     (if prefix ''/details/'' (c # cs) \<and> takeWhile ok (drop 9 (c # cs)) \<noteq> []
      then Some (takeWhile ok (drop 9 (c # cs)))
      else search_details ok cs)"

text \<open>The identifier of a card from two attributes, then from the link to its details page.\<close>

definition card_id_elem :: "string \<Rightarrow> string \<Rightarrow> (char \<Rightarrow> bool) \<Rightarrow> card \<Rightarrow> string" where
  "card_id_elem k1 k2 ok c =
     (let id_elem = (if get_attr (card_attrs c) k1 \<noteq> [] then get_attr (card_attrs c) k1
                     else get_attr (card_attrs c) k2)
      in if id_elem = []
         then (case details_href c of
                 None \<Rightarrow> id_elem
               | Some h \<Rightarrow>
                   if h = [] then id_elem
                   else (case search_details ok h of None \<Rightarrow> id_elem | Some g \<Rightarrow> g))
         else id_elem)"

definition rightmove_parse_prop :: "json_prop \<Rightarrow> listing option" where
  "rightmove_parse_prop p =
     (let p_id = (case prop_id p of None \<Rightarrow> VNone | Some v \<Rightarrow> v)
      in case prop_fields p of
           Inl e \<Rightarrow> None
         | Inr f \<Rightarrow>
             Some \<lparr>listing_id = py_str p_id, title = f_title f, price = f_price f,
                   price_text = f_price_text f, address = f_address f,
                   bedrooms = f_bedrooms f, description = None, link = f_link f,
                   images = prop_images p, source = ''rightmove''\<rparr>)"

definition rightmove_parse_listings :: "document \<Rightarrow> listing list" where
  "rightmove_parse_listings d = List.map_filter rightmove_parse_prop (props d)"

definition zoopla_parse_card :: "card \<Rightarrow> listing option" where
  "zoopla_parse_card c =
     (let id_elem = card_id_elem ''id'' ''data-listing-id'' is_digit c
      in if id_elem = [] then None
         else (case card_fields c of
                 Inl e \<Rightarrow> None
               | Inr f \<Rightarrow>
                   Some \<lparr>listing_id = ''zoopla-'' @ id_elem, title = f_title f,
                         price = f_price f, price_text = f_price_text f,
                         address = f_address f, bedrooms = f_bedrooms f, description = None,
                         link = f_link f, images = Some (f_images f), source = ''zoopla''\<rparr>))"

definition zoopla_parse_prop :: "json_prop \<Rightarrow> listing option" where
  "zoopla_parse_prop p =
     (let p_id = (case prop_id p of
                    Some v \<Rightarrow> v
                  | None \<Rightarrow> (case prop_listing_id p of Some v \<Rightarrow> v | None \<Rightarrow> VStr []))
      in if \<not> py_truthy p_id then None
         else (case prop_fields p of
                 Inl e \<Rightarrow> None
               | Inr f \<Rightarrow>
                   Some \<lparr>listing_id = ''zoopla-'' @ py_str p_id, title = f_title f,
                         price = f_price f, price_text = f_price_text f,
                         address = f_address f, bedrooms = f_bedrooms f, description = None,
                         link = f_link f, images = Some (f_images f), source = ''zoopla''\<rparr>))"

definition zoopla_parse_listings :: "document \<Rightarrow> listing list" where
  "zoopla_parse_listings d =
     (let listings = List.map_filter zoopla_parse_card (cards d)
      in if listings = [] then List.map_filter zoopla_parse_prop (props d) else listings)"

definition onthemarket_parse_card :: "card \<Rightarrow> listing option" where
  "onthemarket_parse_card c =
     (let id_elem = card_id_elem ''id'' ''data-property-id'' (\<lambda>ch. ch \<noteq> CHR ''/'') c
      in if id_elem = [] then None
         else (case card_fields c of
                 Inl e \<Rightarrow> None
               | Inr f \<Rightarrow>
                   Some \<lparr>listing_id = ''otm-'' @ id_elem, title = f_title f,
                         price = f_price f, price_text = f_price_text f,
                         address = f_address f, bedrooms = f_bedrooms f,
                         description = Some (f_description f), link = f_link f,
                         images = Some (f_images f), source = ''onthemarket''\<rparr>))"

definition onthemarket_parse_listings :: "document \<Rightarrow> listing list" where
  "onthemarket_parse_listings d = List.map_filter onthemarket_parse_card (cards d)"

definition spareroom_card_id :: "card \<Rightarrow> string" where
  "spareroom_card_id c =
     (let id0 = get_attr (card_attrs c) ''data-listing-id'';
          id1 = (if id0 = []
                 then (case parent_li_attrs c of
                         None \<Rightarrow> id0
                       | Some attrs \<Rightarrow> get_attr attrs ''data-listing-id'')
                 else id0)
      in if id1 = [] then ''sr-'' @ clock_text c else id1)"

definition spareroom_parse_card :: "card \<Rightarrow> listing option" where
  "spareroom_parse_card c =
     (let raw_id = spareroom_card_id c
      in case card_fields c of
           Inl e \<Rightarrow> None
         | Inr f \<Rightarrow>
             Some \<lparr>listing_id = ''spareroom-'' @ raw_id, title = f_title f,
                   price = f_price f, price_text = f_price_text f, address = f_address f,
                   bedrooms = Scalar (VInt 1), description = None, link = f_link f,
                   images = Some (f_images f), source = ''spareroom''\<rparr>)"

definition spareroom_parse_listings :: "document \<Rightarrow> listing list" where
  "spareroom_parse_listings d = List.map_filter spareroom_parse_card (cards d)"

definition openrent_parse_card :: "card \<Rightarrow> listing option" where
  "openrent_parse_card c =
     (let id_elem = (case carousel_attrs c of
                       None \<Rightarrow> []
                     | Some attrs \<Rightarrow> get_attr attrs ''data-listing-id'')
      in if id_elem = [] then None
         else (case card_fields c of
                 Inl e \<Rightarrow> None
               | Inr f \<Rightarrow>
                   Some \<lparr>listing_id = ''openrent-'' @ id_elem, title = f_title f,
                         price = f_price f, price_text = f_price_text f,
                         address = f_address f, bedrooms = f_bedrooms f, description = None,
                         link = f_link f, images = Some (f_images f), source = ''openrent''\<rparr>))"

definition openrent_parse_listings :: "document \<Rightarrow> listing list" where
  "openrent_parse_listings d = List.map_filter openrent_parse_card (cards d)"

text \<open>The literal that the f-string of each adapter puts before the raw identifier.\<close>

fun id_tag :: "site \<Rightarrow> string" where
  "id_tag Rightmove = []"
| "id_tag Zoopla = ''zoopla-''"
| "id_tag Spareroom = ''spareroom-''"
| "id_tag OnTheMarket = ''otm-''"
| "id_tag OpenRent = ''openrent-''"

fun site_parse_listings :: "site \<Rightarrow> document \<Rightarrow> listing list" where
  "site_parse_listings Rightmove = rightmove_parse_listings"
| "site_parse_listings Zoopla = zoopla_parse_listings"
| "site_parse_listings Spareroom = spareroom_parse_listings"
| "site_parse_listings OnTheMarket = onthemarket_parse_listings"
| "site_parse_listings OpenRent = openrent_parse_listings"

subsection \<open>What a site contributes\<close>

text \<open>The three stage calls of the loop body of \<^verbatim>\<open>fetch_listings\<close>, one after the other.\<close>

definition run_stages :: "adapter \<Rightarrow> exn + listing list" where
  "run_stages a =
     (case build_url a of
        Inl e \<Rightarrow> Inl e
      | Inr url \<Rightarrow>
          (case adapter_fetch a url of
             Inl e \<Rightarrow> Inl e
           | Inr raw_data \<Rightarrow> parse_listings a raw_data))"

text \<open>
  The specification's reading of the aggregate: a site whose adapter is registered and
  whose stages all succeed contributes the parsed listings, every other site none.
\<close>

definition site_contribution :: "scanner \<Rightarrow> string \<Rightarrow> listing list" where
  "site_contribution sc name =
     (case adapters sc (lower name) of
        None \<Rightarrow> []
      | Some a \<Rightarrow> (case run_stages a of Inl e \<Rightarrow> [] | Inr ls \<Rightarrow> ls))"

subsection \<open>Listings with finite numbers\<close>

text \<open>
  A listing on whose price and bedrooms \<^verbatim>\<open>int()\<close> does not raise \<^verbatim>\<open>OverflowError\<close>:
  neither is an infinite float. Every listing of the specification's data model, where
  both are integers, is one.
\<close>

definition finite_numbers :: "listing \<Rightarrow> bool" where
  "finite_numbers l =
     (py_int (price l) \<noteq> Inl OverflowError \<and> py_int (bedrooms l) \<noteq> Inl OverflowError)"

section \<open>Example data\<close>

text \<open>A listing with the given id, title, price and bedrooms, and nothing else.\<close>

definition ex_listing :: "string \<Rightarrow> string \<Rightarrow> pyval \<Rightarrow> pyval \<Rightarrow> listing" where
  "ex_listing i t p b =
     \<lparr>listing_id = i, title = t, price = Scalar p, price_text = [], address = [],
      bedrooms = Scalar b,
      description = None, link = [], images = Some [], source = ''siteB''\<rparr>"

definition price_config :: config where
  "price_config =
     empty_config\<lparr>cfg_filters := no_filters\<lparr>min_price := Some 800, max_price := Some 1200\<rparr>\<rparr>"

definition student_config :: config where
  "student_config = empty_config\<lparr>cfg_filters := no_filters\<lparr>exclude_keywords := [''student'']\<rparr>\<rparr>"

text \<open>
  A listing whose price is the float infinity, as the rightmove adapter builds it from
  a JSON price amount of \<^verbatim>\<open>1e999\<close>.
\<close>

definition inf_listing :: listing where
  "inf_listing = (ex_listing ''r-1'' ''Flat'' VNone (VInt 1))\<lparr>price := Float PosInf\<rparr>"

text \<open>
  Two test adapters: the fetch stage of \<open>site_a\<close> raises a network error, \<open>site_b\<close>
  parses two listings. The config enables \<^verbatim>\<open>siteA\<close>, \<^verbatim>\<open>siteB\<close> and \<^verbatim>\<open>siteC\<close>, and
  \<^verbatim>\<open>siteC\<close> has no adapter.
\<close>

definition site_a :: adapter where
  "site_a = \<lparr>build_url = Inr ''http://a'',
             adapter_fetch = (\<lambda>url. Inl (Exn ''connection refused'')),
             parse_listings = (\<lambda>raw. Inr [])\<rparr>"

definition site_b :: adapter where
  "site_b = \<lparr>build_url = Inr ''http://b'',
             adapter_fetch = (\<lambda>url. Inr ''<html>''),
             parse_listings = (\<lambda>raw. Inr [ex_listing ''b-1'' ''Flat'' (VInt 900) (VInt 1),
                                           ex_listing ''b-2'' ''House'' (VInt 1300) (VInt 1)])\<rparr>"

definition ab_config :: config where
  "ab_config =
     empty_config\<lparr>sites := [(''siteA'', \<lparr>enabled = Some True\<rparr>), (''siteB'', \<lparr>enabled = Some True\<rparr>),
                             (''siteC'', \<lparr>enabled = Some True\<rparr>)]\<rparr>"

definition ab_scanner :: scanner where
  "ab_scanner = \<lparr>sc_config = ab_config, seen_listings = Map.empty,
                 adapters = [''sitea'' \<mapsto> site_a, ''siteb'' \<mapsto> site_b]\<rparr>"

text \<open>A clock whose \<open>n\<close>-th reading is the text of \<open>n\<close>, and a config that bypasses the seen check.\<close>

definition tick_clock :: "nat \<Rightarrow> string" where
  "tick_clock n = ''T'' @ str_of_nat n"

definition bypass_config :: config where
  "bypass_config = price_config\<lparr>bypass_seen_check := True\<rparr>"

text \<open>A config whose only site entry has no \<^verbatim>\<open>"enabled"\<close> key, and one with all three cases.\<close>

definition implicit_config :: config where
  "implicit_config = empty_config\<lparr>sites := [(''zoopla'', \<lparr>enabled = None\<rparr>)]\<rparr>"

definition mixed_config :: config where
  "mixed_config =
     empty_config\<lparr>sites := [(''rightmove'', \<lparr>enabled = Some False\<rparr>),
                             (''zoopla'', \<lparr>enabled = Some True\<rparr>),
                             (''openrent'', \<lparr>enabled = None\<rparr>)]\<rparr>"

definition disabled_config :: config where
  "disabled_config = empty_config\<lparr>sites := [(''zoopla'', \<lparr>enabled = Some False\<rparr>)]\<rparr>"

text \<open>
  A world in which the config file cannot be read, and a registry whose rightmove
  adapter is the test adapter \<open>site_b\<close>.
\<close>

definition bad_world :: world where
  "bad_world = \<lparr>read_config = Inl (Exn ''No such file or directory''), read_seen = None,
                write_seen = (\<lambda>m. Inr ()), smtp = (\<lambda>ec m. Inr ()), now = tick_clock\<rparr>"

definition demo_registry :: "config \<Rightarrow> string \<rightharpoonup> adapter" where
  "demo_registry cfg = [''rightmove'' \<mapsto> site_b]"

text \<open>A world in which everything works, and a scanner whose config has a mail entry.\<close>

definition mail_config :: config where
  "mail_config =
     empty_config\<lparr>sites := [(''siteB'', \<lparr>enabled = Some True\<rparr>)],
                  email := Some \<lparr>sender = ''from@example.org'', recipient = ''to@example.org'',
                                  smtp_server = ''smtp.example.org'', smtp_port = None,
                                  username = ''user'', password = ''secret''\<rparr>\<rparr>"

definition ok_world :: world where
  "ok_world = \<lparr>read_config = Inr mail_config, read_seen = None,
               write_seen = (\<lambda>m. Inr ()), smtp = (\<lambda>ec m. Inr ()), now = tick_clock\<rparr>"

definition mail_scanner :: scanner where
  "mail_scanner = \<lparr>sc_config = mail_config, seen_listings = Map.empty,
                   adapters = [''siteb'' \<mapsto> site_b]\<rparr>"

text \<open>A site that answers every request with status 403, and one that answers with 200.\<close>

definition blocked_net :: network where
  "blocked_net hist r = Inr \<lparr>status_code = 403, response_text = ''Forbidden''\<rparr>"

definition open_net :: network where
  "open_net hist r = Inr \<lparr>status_code = 200, response_text = ''<html>''\<rparr>"

text \<open>
  A site that serves its home page, blocks the first request for the search page and
  serves the second.
\<close>

definition retry_net :: network where
  "retry_net hist r =
     (if length hist = 0 then Inr \<lparr>status_code = 200, response_text = ''<html>home</html>''\<rparr>
      else if length hist = 1 then Inr \<lparr>status_code = 403, response_text = ''Forbidden''\<rparr>
      else Inr \<lparr>status_code = 200, response_text = ''<html>second</html>''\<rparr>)"

text \<open>Candidates of a document: the extracted fields, a card and a JSON property object.\<close>

definition ex_fields :: fields where
  "ex_fields = \<lparr>f_title = ''Flat'', f_price = Scalar (VInt 900), f_price_text = ''900 pcm'',
                f_address = ''Bristol'', f_bedrooms = Scalar (VInt 1), f_description = [], f_link = [],
                f_images = []\<rparr>"

definition ex_card :: "(string \<rightharpoonup> string) \<Rightarrow> card" where
  "ex_card attrs = \<lparr>card_attrs = attrs, details_href = None, parent_li_attrs = None,
                    carousel_attrs = Some attrs, clock_text = ''1700000000.5'',
                    card_fields = Inr ex_fields\<rparr>"

definition ex_prop :: "pyval \<Rightarrow> json_prop" where
  "ex_prop v = \<lparr>prop_id = Some v, prop_listing_id = None, prop_images = None,
                prop_fields = Inr ex_fields\<rparr>"

text \<open>
  Documents: one with a JSON property object whose id is the number 123, one with a card
  whose attributes give the identifier 42, and one with a JSON property object whose id
  is the string \<^verbatim>\<open>zoopla-42\<close>.
\<close>

definition json_doc :: document where
  "json_doc = \<lparr>cards = [], props = [ex_prop (VInt 123)]\<rparr>"

definition card_doc :: document where
  "card_doc = \<lparr>cards = [ex_card [''id'' \<mapsto> ''42'', ''data-listing-id'' \<mapsto> ''42'']], props = []\<rparr>"

definition clash_doc :: document where
  "clash_doc = \<lparr>cards = [], props = [ex_prop (VStr ''zoopla-42'')]\<rparr>"

section \<open>Properties of the filter engine\<close>

lemma exclude_hit_iff: "exclude_hit ks text \<longleftrightarrow> (\<exists>k\<in>set ks. py_in (lower k) text)"
  by (induction ks) auto

lemma py_in_append_left: "py_in k s \<Longrightarrow> py_in k (s @ r)"
  unfolding py_in_def sublist_def by (metis append.assoc)

lemma py_in_append_right: "py_in k s \<Longrightarrow> py_in k (p @ s)"
  unfolding py_in_def sublist_def by (metis append.assoc)

lemma lower_append: "lower (a @ b) = lower a @ lower b"
  by (simp add: lower_def)

lemma bound_check_fail_open:
  "py_int v = Inl ValueError \<or> py_int v = Inl TypeError \<Longrightarrow> bound_check lo hi v = Inr True"
  by (auto simp: bound_check_def)

lemma bound_check_overflow:
  "py_int v = Inl OverflowError \<Longrightarrow> lo \<noteq> None \<or> hi \<noteq> None \<Longrightarrow>
   bound_check lo hi v = Inl OverflowError"
  by (auto simp: bound_check_def)

lemma returns_iff: "(\<exists>b. x = Inr b) \<longleftrightarrow> \<not> isl x"
  by (cases x) auto

lemma bound_check_value:
  "py_int v = Inr n \<Longrightarrow>
   bound_check lo hi v =
     Inr (\<not> (lo \<noteq> None \<and> n < the lo) \<and> \<not> (hi \<noteq> None \<and> n > the hi))"
  by (auto simp: bound_check_def split: option.splits)

lemma bound_check_returns:
  assumes "py_int v \<noteq> Inl OverflowError"
  shows "\<not> isl (bound_check lo hi v)"
proof (cases "py_int v")
  case (Inl e)
  with assms have "e = ValueError \<or> e = TypeError"
    by (cases e) auto
  with Inl have "bound_check lo hi v = Inr True"
    by (intro bound_check_fail_open) auto
  then show ?thesis by simp
next
  case (Inr n)
  then show ?thesis
    by (simp add: bound_check_value)
qed

lemma meets_criteria_returns:
  assumes "finite_numbers l"
  shows "\<not> isl (meets_criteria cfg l)"
proof -
  have "\<not> isl (price_check (cfg_filters cfg) l)"
    using assms bound_check_returns unfolding finite_numbers_def price_check_def by blast
  then obtain p where p: "price_check (cfg_filters cfg) l = Inr p"
    by (cases "price_check (cfg_filters cfg) l") auto
  have "\<not> isl (beds_check (cfg_filters cfg) l)"
    using assms bound_check_returns unfolding finite_numbers_def beds_check_def by blast
  then obtain b where b: "beds_check (cfg_filters cfg) l = Inr b"
    by (cases "beds_check (cfg_filters cfg) l") auto
  show ?thesis
    by (simp add: meets_criteria_def Let_def p b)
qed

section \<open>Properties of the loops\<close>

lemma enabled_loop_eq:
  "enabled_loop xs acc = acc @ map fst (filter (\<lambda>(s, c). enabled c \<noteq> Some False) xs)"
  by (induction xs acc rule: enabled_loop.induct) (auto split: option.splits)

lemma fetch_loop_eq:
  "fetch_loop sc ss acc evs =
     (acc @ concat (map (\<lambda>s. fst (fetch_site sc s)) ss),
      evs @ concat (map (\<lambda>s. snd (fetch_site sc s)) ss))"
  by (induction ss arbitrary: acc evs) (auto simp: case_prod_beta Let_def)

lemma filter_loop_acc:
  "filter_loop cfg clock ls seen acc t =
     (case fst (filter_loop cfg clock ls seen [] t) of
        Inl e \<Rightarrow> Inl e
      | Inr xs \<Rightarrow> Inr (acc @ xs),
      snd (filter_loop cfg clock ls seen [] t))"
proof (induction ls arbitrary: seen acc t)
  case Nil
  then show ?case by simp
next
  case (Cons l ls)
  show ?case
    using Cons.IH[of _ "acc @ [l]"] Cons.IH[of _ "[l]"] Cons.IH[of _ acc]
    by (auto split: sum.splits)
qed

text \<open>The four ways one round of the loop can go.\<close>

lemma filter_loop_skip:
  "seen (listing_id l) \<noteq> None \<Longrightarrow> \<not> bypass_seen_check cfg \<Longrightarrow>
   filter_loop cfg clock (l # ls) seen [] t = filter_loop cfg clock ls seen [] t"
  by simp

lemma filter_loop_raise:
  "seen (listing_id l) = None \<or> bypass_seen_check cfg \<Longrightarrow> meets_criteria cfg l = Inl e \<Longrightarrow>
   filter_loop cfg clock (l # ls) seen [] t = (Inl e, seen)"
  by auto

lemma filter_loop_keep:
  "seen (listing_id l) = None \<or> bypass_seen_check cfg \<Longrightarrow> meets_criteria cfg l = Inr True \<Longrightarrow>
   filter_loop cfg clock (l # ls) seen [] t =
     (case fst (filter_loop cfg clock ls (seen(listing_id l \<mapsto> clock t)) [] (Suc t)) of
        Inl e \<Rightarrow> Inl e
      | Inr xs \<Rightarrow> Inr (l # xs),
      snd (filter_loop cfg clock ls (seen(listing_id l \<mapsto> clock t)) [] (Suc t)))"
  using filter_loop_acc[of cfg clock ls "seen(listing_id l \<mapsto> clock t)" "[l]" "Suc t"]
  by (auto split: sum.splits)

lemma filter_loop_drop:
  "seen (listing_id l) = None \<or> bypass_seen_check cfg \<Longrightarrow> meets_criteria cfg l = Inr False \<Longrightarrow>
   filter_loop cfg clock (l # ls) seen [] t = filter_loop cfg clock ls seen [] t"
  by auto

lemma filter_step_cases [case_names skip raise keep drop]:
  obtains
    (skip) "seen (listing_id l) \<noteq> None" and "\<not> bypass_seen_check cfg"
  | (raise) e where "seen (listing_id l) = None \<or> bypass_seen_check cfg"
      and "meets_criteria cfg l = Inl e"
  | (keep) "seen (listing_id l) = None \<or> bypass_seen_check cfg"
      and "meets_criteria cfg l = Inr True"
  | (drop) "seen (listing_id l) = None \<or> bypass_seen_check cfg"
      and "meets_criteria cfg l = Inr False"
proof (cases "seen (listing_id l) \<noteq> None \<and> \<not> bypass_seen_check cfg")
  case True
  then have "seen (listing_id l) \<noteq> None" and "\<not> bypass_seen_check cfg"
    by auto
  then show ?thesis by (rule skip)
next
  case False
  then have evaluated: "seen (listing_id l) = None \<or> bypass_seen_check cfg"
    by auto
  show ?thesis
  proof (cases "meets_criteria cfg l")
    case (Inl e)
    with evaluated show ?thesis by (rule raise)
  next
    case (Inr b)
    show ?thesis
    proof (cases b)
      case True
      with Inr have "meets_criteria cfg l = Inr True" by simp
      with evaluated show ?thesis by (rule keep)
    next
      case False
      with Inr have "meets_criteria cfg l = Inr False" by simp
      with evaluated show ?thesis by (rule drop)
    qed
  qed
qed

lemma keep_result:
  assumes "fst (case r of Inl e \<Rightarrow> Inl e | Inr xs \<Rightarrow> Inr (l # xs), s) = Inr ret"
  obtains xs where "r = Inr xs" and "ret = l # xs"
  using assms by (cases r) auto

lemma filter_loop_stamp_kept:
  "\<exists>n. seen x = Some (clock n) \<Longrightarrow> \<exists>n. snd (filter_loop cfg clock ls seen [] t) x = Some (clock n)"
proof (induction ls arbitrary: seen t)
  case Nil
  then show ?case by simp
next
  case (Cons a ls)
  have upd: "\<exists>n. (seen(listing_id a \<mapsto> clock t)) x = Some (clock n)"
    using Cons.prems by auto
  show ?case
  proof (cases rule: filter_step_cases[of seen a cfg])
    case skip
    note step = filter_loop_skip[of seen a cfg clock ls t, OF skip]
    show ?thesis
      using Cons.IH[of seen t, OF Cons.prems] unfolding step by simp
  next
    case (raise e)
    note step = filter_loop_raise[of seen a cfg e clock ls t, OF raise]
    show ?thesis
      using Cons.prems unfolding step by simp
  next
    case keep
    note step = filter_loop_keep[of seen a cfg clock ls t, OF keep]
    show ?thesis
      using Cons.IH[of "seen(listing_id a \<mapsto> clock t)" "Suc t", OF upd] unfolding step
      by (simp del: fun_upd_apply)
  next
    case drop
    note step = filter_loop_drop[of seen a cfg clock ls t, OF drop]
    show ?thesis
      using Cons.IH[of seen t, OF Cons.prems] unfolding step by simp
  qed
qed


lemma filter_loop_stamp:
  "fst (filter_loop cfg clock ls seen [] t) = Inr ret \<Longrightarrow>
   \<forall>x\<in>set ret. \<exists>n. snd (filter_loop cfg clock ls seen [] t) (listing_id x) = Some (clock n)"
proof (induction ls arbitrary: seen t ret)
  case Nil
  then show ?case by simp
next
  case (Cons a ls)
  show ?case
  proof (cases rule: filter_step_cases[of seen a cfg])
    case skip
    note step = filter_loop_skip[of seen a cfg clock ls t, OF skip]
    show ?thesis
      using Cons.prems Cons.IH[of seen t ret] unfolding step by simp
  next
    case (raise e)
    note step = filter_loop_raise[of seen a cfg e clock ls t, OF raise]
    show ?thesis
      using Cons.prems unfolding step by simp
  next
    case keep
    note step = filter_loop_keep[of seen a cfg clock ls t, OF keep]
    obtain xs where
      xs: "fst (filter_loop cfg clock ls (seen(listing_id a \<mapsto> clock t)) [] (Suc t)) = Inr xs"
      and ret: "ret = a # xs"
      using Cons.prems unfolding step by (rule keep_result)
    have kept: "\<exists>n. snd (filter_loop cfg clock ls (seen(listing_id a \<mapsto> clock t)) [] (Suc t))
                  (listing_id a) = Some (clock n)"
      by (rule filter_loop_stamp_kept) auto
    show ?thesis
      using Cons.IH[of "seen(listing_id a \<mapsto> clock t)" "Suc t" xs, OF xs] kept unfolding step ret
      by (simp del: fun_upd_apply)
  next
    case drop
    note step = filter_loop_drop[of seen a cfg clock ls t, OF drop]
    show ?thesis
      using Cons.prems Cons.IH[of seen t ret] unfolding step by simp
  qed
qed

lemma filter_loop_dom:
  "fst (filter_loop cfg clock ls seen [] t) = Inr ret \<Longrightarrow>
   dom (snd (filter_loop cfg clock ls seen [] t)) = dom seen \<union> listing_id ` set ret"
proof (induction ls arbitrary: seen t ret)
  case Nil
  then show ?case by auto
next
  case (Cons a ls)
  show ?case
  proof (cases rule: filter_step_cases[of seen a cfg])
    case skip
    note step = filter_loop_skip[of seen a cfg clock ls t, OF skip]
    show ?thesis
      using Cons.prems Cons.IH[of seen t ret] unfolding step by simp
  next
    case (raise e)
    note step = filter_loop_raise[of seen a cfg e clock ls t, OF raise]
    show ?thesis
      using Cons.prems unfolding step by simp
  next
    case keep
    note step = filter_loop_keep[of seen a cfg clock ls t, OF keep]
    obtain xs where
      xs: "fst (filter_loop cfg clock ls (seen(listing_id a \<mapsto> clock t)) [] (Suc t)) = Inr xs"
      and ret: "ret = a # xs"
      using Cons.prems unfolding step by (rule keep_result)
    show ?thesis
      using Cons.IH[of "seen(listing_id a \<mapsto> clock t)" "Suc t" xs, OF xs] unfolding step ret
      by (auto simp del: fun_upd_apply)
  next
    case drop
    note step = filter_loop_drop[of seen a cfg clock ls t, OF drop]
    show ?thesis
      using Cons.prems Cons.IH[of seen t ret] unfolding step by simp
  qed
qed


lemma filter_loop_returned:
  "fst (filter_loop cfg clock ls seen [] t) = Inr ret \<Longrightarrow>
   \<forall>x\<in>set ret.
     x \<in> set ls \<and> meets_criteria cfg x = Inr True \<and>
     (seen (listing_id x) = None \<or> bypass_seen_check cfg)"
proof (induction ls arbitrary: seen t ret)
  case Nil
  then show ?case by simp
next
  case (Cons a ls)
  have upd: "(seen(listing_id a \<mapsto> v)) k = None \<Longrightarrow> seen k = None" for v k
    by (simp split: if_splits)
  show ?case
  proof (cases rule: filter_step_cases[of seen a cfg])
    case skip
    note step = filter_loop_skip[of seen a cfg clock ls t, OF skip]
    show ?thesis
      using Cons.prems Cons.IH[of seen t ret] unfolding step by simp
  next
    case (raise e)
    note step = filter_loop_raise[of seen a cfg e clock ls t, OF raise]
    show ?thesis
      using Cons.prems unfolding step by simp
  next
    case keep
    note step = filter_loop_keep[of seen a cfg clock ls t, OF keep]
    obtain xs where
      xs: "fst (filter_loop cfg clock ls (seen(listing_id a \<mapsto> clock t)) [] (Suc t)) = Inr xs"
      and ret: "ret = a # xs"
      using Cons.prems unfolding step by (rule keep_result)
    show ?thesis
      using Cons.IH[of "seen(listing_id a \<mapsto> clock t)" "Suc t" xs, OF xs] keep unfolding ret
      by (simp del: fun_upd_apply) (blast dest: upd)
  next
    case drop
    note step = filter_loop_drop[of seen a cfg clock ls t, OF drop]
    show ?thesis
      using Cons.prems Cons.IH[of seen t ret] unfolding step by simp
  qed
qed



lemma filter_loop_returns:
  "\<forall>l\<in>set ls. finite_numbers l \<Longrightarrow> \<not> isl (fst (filter_loop cfg clock ls seen [] t))"
proof (induction ls arbitrary: seen t)
  case Nil
  then show ?case by simp
next
  case (Cons a ls)
  have rest: "\<forall>l\<in>set ls. finite_numbers l"
    using Cons.prems by simp
  have a: "\<not> isl (meets_criteria cfg a)"
    using Cons.prems by (simp add: meets_criteria_returns)
  show ?case
  proof (cases rule: filter_step_cases[of seen a cfg])
    case skip
    note step = filter_loop_skip[of seen a cfg clock ls t, OF skip]
    show ?thesis
      using Cons.IH[of seen t, OF rest] unfolding step by simp
  next
    case (raise e)
    note step = filter_loop_raise[of seen a cfg e clock ls t, OF raise]
    show ?thesis
      using a raise(2) by simp
  next
    case keep
    note step = filter_loop_keep[of seen a cfg clock ls t, OF keep]
    show ?thesis
      using Cons.IH[of "seen(listing_id a \<mapsto> clock t)" "Suc t", OF rest] unfolding step
      by (cases "fst (filter_loop cfg clock ls (seen(listing_id a \<mapsto> clock t)) [] (Suc t))")
         (simp_all del: fun_upd_apply)
  next
    case drop
    note step = filter_loop_drop[of seen a cfg clock ls t, OF drop]
    show ?thesis
      using Cons.IH[of seen t, OF rest] unfolding step by simp
  qed
qed

text \<open>
  Claim C6 (fail-open price bound) at the configuration \<open>min_price = 800\<close>,
  \<open>max_price = 1200\<close>. A listing priced 900 passes the price check and one priced 1300
  is excluded. A price that \<^verbatim>\<open>int()\<close> rejects with \<^verbatim>\<open>ValueError\<close> or
  \<^verbatim>\<open>TypeError\<close> (a text, \<^verbatim>\<open>None\<close>, not-a-number) passes the check. A price that is
  the float infinity is not let through: \<^verbatim>\<open>int()\<close> raises \<^verbatim>\<open>OverflowError\<close>, which
  the \<^verbatim>\<open>except\<close> clause of the price block does not name, so \<^verbatim>\<open>_meets_criteria\<close>
  raises and \<^verbatim>\<open>filter_listings\<close> ends with the exception, also for the listing
  priced 900 that comes after it.
\<close>

theorem price_bound_overflow:
  "price_check (cfg_filters price_config) (ex_listing ''a'' ''Flat'' (VInt 900) (VInt 1)) = Inr True \<and>
   meets_criteria price_config (ex_listing ''a'' ''Flat'' (VInt 900) (VInt 1)) = Inr True \<and>
   price_check (cfg_filters price_config) (ex_listing ''b'' ''Flat'' (VInt 1300) (VInt 1)) = Inr False \<and>
   meets_criteria price_config (ex_listing ''b'' ''Flat'' (VInt 1300) (VInt 1)) = Inr False \<and>
   price_check (cfg_filters price_config) (ex_listing ''c'' ''Flat'' (VStr ''POA'') (VInt 1)) = Inr True \<and>
   price_check (cfg_filters price_config) (ex_listing ''d'' ''Flat'' VNone (VInt 1)) = Inr True \<and>
   price_check (cfg_filters price_config)
     ((ex_listing ''e'' ''Flat'' VNone (VInt 1))\<lparr>price := Float NaN\<rparr>) = Inr True \<and>
   py_int (price inf_listing) = Inl OverflowError \<and>
   price_check (cfg_filters price_config) inf_listing = Inl OverflowError \<and>
   meets_criteria price_config inf_listing = Inl OverflowError \<and>
   fst (filter_listings price_config tick_clock Map.empty
          [inf_listing, ex_listing ''a'' ''Flat'' (VInt 900) (VInt 1)]) = Inl OverflowError"
proof -
  have poa: "int_of_string ''POA'' = None"
    by (simp add: int_of_string_def strip_def is_space_def is_digit_def)
  have pc: "price_check (cfg_filters price_config) l = bound_check (Some 800) (Some 1200) (price l)"
    for l
    by (simp add: price_check_def price_config_def)
  have p900: "price_check (cfg_filters price_config) (ex_listing ''a'' ''Flat'' (VInt 900) (VInt 1))
                = Inr True"
    by (simp add: pc bound_check_def ex_listing_def)
  have p1300: "price_check (cfg_filters price_config) (ex_listing ''b'' ''Flat'' (VInt 1300) (VInt 1))
                 = Inr False"
    by (simp add: pc bound_check_def ex_listing_def)
  have ppoa: "price_check (cfg_filters price_config) (ex_listing ''c'' ''Flat'' (VStr ''POA'') (VInt 1))
                = Inr True"
    by (simp add: pc bound_check_def ex_listing_def poa)
  have pnone: "price_check (cfg_filters price_config) (ex_listing ''d'' ''Flat'' VNone (VInt 1))
                 = Inr True"
    by (simp add: pc bound_check_def ex_listing_def)
  have pnan: "price_check (cfg_filters price_config)
                ((ex_listing ''e'' ''Flat'' VNone (VInt 1))\<lparr>price := Float NaN\<rparr>) = Inr True"
    by (simp add: pc bound_check_def)
  have iinf: "py_int (price inf_listing) = Inl OverflowError"
    by (simp add: inf_listing_def)
  have pinf: "price_check (cfg_filters price_config) inf_listing = Inl OverflowError"
    by (simp add: pc bound_check_def iinf)
  have m900: "meets_criteria price_config (ex_listing ''a'' ''Flat'' (VInt 900) (VInt 1)) = Inr True"
    by (simp add: meets_criteria_def price_config_def empty_config_def no_filters_def
          price_check_def beds_check_def bound_check_def ex_listing_def)
  have m1300: "meets_criteria price_config (ex_listing ''b'' ''Flat'' (VInt 1300) (VInt 1)) = Inr False"
    by (simp add: meets_criteria_def price_config_def empty_config_def no_filters_def
          price_check_def beds_check_def bound_check_def ex_listing_def)
  have minf: "meets_criteria price_config inf_listing = Inl OverflowError"
    by (simp add: meets_criteria_def price_config_def empty_config_def no_filters_def
          price_check_def beds_check_def bound_check_def ex_listing_def inf_listing_def)
  have finf: "fst (filter_listings price_config tick_clock Map.empty
          [inf_listing, ex_listing ''a'' ''Flat'' (VInt 900) (VInt 1)]) = Inl OverflowError"
    by (simp add: filter_listings_def minf)
  from p900 m900 p1300 m1300 ppoa pnone pnan iinf pinf minf finf show ?thesis
    by blast
qed

text \<open>
  Claim C9 (exclude-keyword short-circuit). If a configured exclude keyword occurs, in
  lower case, in the lower-cased text that \<^verbatim>\<open>_meets_criteria\<close> builds from title,
  address and description (joined by single spaces), the listing is excluded whatever
  its price, its bedrooms and the include keywords are. This is so in particular when
  the keyword occurs inside the title, the address or the description, and for the
  exclude list \<^verbatim>\<open>["student"]\<close> and the title "Student house".
\<close>

theorem exclude_keyword_short_circuit:
  "((\<exists>k\<in>set (exclude_keywords (cfg_filters cfg)). py_in (lower k) (listing_text l))
      \<longrightarrow> meets_criteria cfg l = Inr False) \<and>
   ((\<exists>k\<in>set (exclude_keywords (cfg_filters cfg)).
        py_in (lower k) (lower (title l)) \<or> py_in (lower k) (lower (address l)) \<or>
        (\<exists>d. description l = Some d \<and> py_in (lower k) (lower d)))
      \<longrightarrow> meets_criteria cfg l = Inr False) \<and>
   (exclude_keywords (cfg_filters cfg) = [''student''] \<and> title l = ''Student house''
      \<longrightarrow> meets_criteria cfg l = Inr False)"
proof -
  have hit: "(\<exists>k\<in>set (exclude_keywords (cfg_filters cfg)). py_in (lower k) (listing_text l))
               \<longrightarrow> meets_criteria cfg l = Inr False"
    by (simp add: meets_criteria_def Let_def exclude_hit_iff)
  have t: "py_in k (lower (title l)) \<Longrightarrow> py_in k (listing_text l)" for k
    by (simp add: listing_text_def lower_append py_in_append_left)
  have a: "py_in k (lower (address l)) \<Longrightarrow> py_in k (listing_text l)" for k
    unfolding listing_text_def lower_append
    by (intro py_in_append_right py_in_append_left)
  have d: "description l = Some d \<Longrightarrow> py_in k (lower d) \<Longrightarrow> py_in k (listing_text l)" for k d
    unfolding listing_text_def lower_append
    by (simp add: py_in_append_right)
  have parts: "(\<exists>k\<in>set (exclude_keywords (cfg_filters cfg)).
        py_in (lower k) (lower (title l)) \<or> py_in (lower k) (lower (address l)) \<or>
        (\<exists>d. description l = Some d \<and> py_in (lower k) (lower d)))
      \<longrightarrow> meets_criteria cfg l = Inr False"
    using hit t a d by blast
  have s: "py_in (lower ''student'') (lower ''Student house'')"
    by (simp add: py_in_def lower_def lower_char_def)
  have student: "exclude_keywords (cfg_filters cfg) = [''student''] \<and> title l = ''Student house''
      \<longrightarrow> meets_criteria cfg l = Inr False"
    using parts s by auto
  from hit parts student show ?thesis by blast
qed

theorem exclude_keyword_short_circuit_witness:
  "meets_criteria student_config (ex_listing ''a'' ''Student house'' (VInt 1) (VInt 1)) = Inr False \<and>
   meets_criteria student_config (ex_listing ''a'' ''Student house'' (VInt 5000) (VInt 9)) = Inr False \<and>
   meets_criteria student_config (ex_listing ''a'' ''Family house'' (VInt 1) (VInt 1)) = Inr True"
proof -
  have ex: "exclude_keywords (cfg_filters student_config) = [''student'']"
    by (simp add: student_config_def)
  have ok: "meets_criteria student_config (ex_listing ''a'' ''Family house'' (VInt 1) (VInt 1)) = Inr True"
    by (simp add: meets_criteria_def student_config_def empty_config_def no_filters_def
          listing_text_def ex_listing_def lower_def lower_char_def py_in_def sublist_Cons_right
          price_check_def beds_check_def bound_check_def)
  show ?thesis
    using exclude_keyword_short_circuit[of student_config
            "ex_listing ''a'' ''Student house'' (VInt 1) (VInt 1)"]
          exclude_keyword_short_circuit[of student_config
            "ex_listing ''a'' ''Student house'' (VInt 5000) (VInt 9)"]
          ex ok
    by (simp add: ex_listing_def)
qed

section \<open>Properties of the orchestrator\<close>

lemma fetch_site_fst: "fst (fetch_site sc s) = site_contribution sc s"
  by (simp add: fetch_site_def site_contribution_def run_stages_def split: option.splits sum.splits)

lemma fetch_site_missing:
  "adapters sc (lower s) = None \<Longrightarrow>
   Log WARNING (''No adapter available for '' @ s) \<in> set (snd (fetch_site sc s))"
  by (simp add: fetch_site_def)

lemma fetch_site_failed:
  "adapters sc (lower s) = Some a \<Longrightarrow> run_stages a = Inl e \<Longrightarrow>
   Log ERROR (''Failed to fetch listings from '' @ s @ '': '' @ exn_text e)
     \<in> set (snd (fetch_site sc s))"
  by (auto simp add: fetch_site_def run_stages_def failed_line_def split: sum.splits)

lemma fetch_listings_log:
  "s \<in> set (get_enabled_sites (sc_config sc)) \<Longrightarrow> ev \<in> set (snd (fetch_site sc s)) \<Longrightarrow>
   ev \<in> set (snd (fetch_listings sc))"
  by (auto simp add: fetch_listings_def fetch_loop_eq)

text \<open>
  Claim C5 (partial-failure aggregation). \<^verbatim>\<open>fetch_listings\<close> always returns, and what it
  returns is the listings of the enabled sites whose adapter is registered and whose
  three stages succeed, in the order of the sites. A site without adapter, or with a
  stage that raises, contributes nothing, and the log has a line with its name: a
  warning for the missing adapter, an error with the exception for the failed stage.
\<close>

theorem fetch_listings_partial_failure:
  "fst (fetch_listings sc) = concat (map (site_contribution sc) (get_enabled_sites (sc_config sc))) \<and>
   (\<forall>s\<in>set (get_enabled_sites (sc_config sc)).
      (adapters sc (lower s) = None \<longrightarrow>
         site_contribution sc s = [] \<and>
         Log WARNING (''No adapter available for '' @ s) \<in> set (snd (fetch_listings sc))) \<and>
      (\<forall>a e. adapters sc (lower s) = Some a \<and> run_stages a = Inl e \<longrightarrow>
         site_contribution sc s = [] \<and>
         Log ERROR (''Failed to fetch listings from '' @ s @ '': '' @ exn_text e)
           \<in> set (snd (fetch_listings sc))) \<and>
      (\<forall>a ls. adapters sc (lower s) = Some a \<and> run_stages a = Inr ls \<longrightarrow>
         site_contribution sc s = ls))"
proof -
  have agg: "fst (fetch_listings sc)
               = concat (map (site_contribution sc) (get_enabled_sites (sc_config sc)))"
    by (simp add: fetch_listings_def fetch_loop_eq fetch_site_fst)
  have sites: "\<forall>s\<in>set (get_enabled_sites (sc_config sc)).
      (adapters sc (lower s) = None \<longrightarrow>
         site_contribution sc s = [] \<and>
         Log WARNING (''No adapter available for '' @ s) \<in> set (snd (fetch_listings sc))) \<and>
      (\<forall>a e. adapters sc (lower s) = Some a \<and> run_stages a = Inl e \<longrightarrow>
         site_contribution sc s = [] \<and>
         Log ERROR (''Failed to fetch listings from '' @ s @ '': '' @ exn_text e)
           \<in> set (snd (fetch_listings sc))) \<and>
      (\<forall>a ls. adapters sc (lower s) = Some a \<and> run_stages a = Inr ls \<longrightarrow>
         site_contribution sc s = ls)"
  proof
    fix s
    assume en: "s \<in> set (get_enabled_sites (sc_config sc))"
    have m: "adapters sc (lower s) = None \<longrightarrow>
         site_contribution sc s = [] \<and>
         Log WARNING (''No adapter available for '' @ s) \<in> set (snd (fetch_listings sc))"
      using fetch_listings_log[OF en] fetch_site_missing[of sc s]
      by (simp add: site_contribution_def)
    have f: "\<forall>a e. adapters sc (lower s) = Some a \<and> run_stages a = Inl e \<longrightarrow>
         site_contribution sc s = [] \<and>
         Log ERROR (''Failed to fetch listings from '' @ s @ '': '' @ exn_text e)
           \<in> set (snd (fetch_listings sc))"
      using fetch_listings_log[OF en] fetch_site_failed[of sc s]
      by (simp add: site_contribution_def)
    have g: "\<forall>a ls. adapters sc (lower s) = Some a \<and> run_stages a = Inr ls \<longrightarrow>
         site_contribution sc s = ls"
      by (simp add: site_contribution_def)
    from m f g show "(adapters sc (lower s) = None \<longrightarrow>
         site_contribution sc s = [] \<and>
         Log WARNING (''No adapter available for '' @ s) \<in> set (snd (fetch_listings sc))) \<and>
      (\<forall>a e. adapters sc (lower s) = Some a \<and> run_stages a = Inl e \<longrightarrow>
         site_contribution sc s = [] \<and>
         Log ERROR (''Failed to fetch listings from '' @ s @ '': '' @ exn_text e)
           \<in> set (snd (fetch_listings sc))) \<and>
      (\<forall>a ls. adapters sc (lower s) = Some a \<and> run_stages a = Inr ls \<longrightarrow>
         site_contribution sc s = ls)"
      by blast
  qed
  from agg sites show ?thesis by blast
qed

theorem fetch_listings_partial_failure_witness:
  "fst (fetch_listings ab_scanner)
     = [ex_listing ''b-1'' ''Flat'' (VInt 900) (VInt 1),
        ex_listing ''b-2'' ''House'' (VInt 1300) (VInt 1)] \<and>
   Log ERROR ''Failed to fetch listings from siteA: connection refused''
     \<in> set (snd (fetch_listings ab_scanner)) \<and>
   Log WARNING ''No adapter available for siteC'' \<in> set (snd (fetch_listings ab_scanner))"
proof -
  have en: "get_enabled_sites (sc_config ab_scanner) = [''siteA'', ''siteB'', ''siteC'']"
    by (simp add: get_enabled_sites_def ab_scanner_def ab_config_def empty_config_def)
  have la: "lower ''siteA'' = ''sitea''" and lb: "lower ''siteB'' = ''siteb''"
    and lc: "lower ''siteC'' = ''sitec''"
    by (simp_all add: lower_def lower_char_def)
  have a: "adapters ab_scanner (lower ''siteA'') = Some site_a"
    by (simp add: la ab_scanner_def)
  have b: "adapters ab_scanner (lower ''siteB'') = Some site_b"
    by (simp add: lb ab_scanner_def)
  have c: "adapters ab_scanner (lower ''siteC'') = None"
    by (simp add: lc ab_scanner_def)
  have ra: "run_stages site_a = Inl (Exn ''connection refused'')"
    by (simp add: run_stages_def site_a_def)
  have rb: "run_stages site_b = Inr [ex_listing ''b-1'' ''Flat'' (VInt 900) (VInt 1),
                                      ex_listing ''b-2'' ''House'' (VInt 1300) (VInt 1)]"
    by (simp add: run_stages_def site_b_def)
  show ?thesis
    using fetch_listings_partial_failure[of ab_scanner] a b c ra rb
    by (simp add: en)
qed



text \<open>
  Claim C10 (registration). After \<^verbatim>\<open>filter_listings\<close> returns, whether the bypass flag
  is set or not, every listing it returned meets the criteria and has its id in the
  Dedup Store with a reading of the clock as timestamp; the keys of the store are the
  keys it had before and the ids of the returned listings, and no others. So a listing
  that does not meet the criteria, whose id was not in the store and is not the id of a
  returned listing, is not in the store afterwards. The call does return when no
  listing has an infinite price or number of bedrooms.
\<close>

theorem filter_listings_registers:
  "(\<forall>ret. fst (filter_listings cfg clock seen ls) = Inr ret \<longrightarrow>
      (\<forall>l\<in>set ret.
         l \<in> set ls \<and> meets_criteria cfg l = Inr True \<and>
         (\<exists>n. snd (filter_listings cfg clock seen ls) (listing_id l) = Some (clock n))) \<and>
      dom (snd (filter_listings cfg clock seen ls)) = dom seen \<union> listing_id ` set ret \<and>
      (\<forall>l\<in>set ls. meets_criteria cfg l \<noteq> Inr True \<and> seen (listing_id l) = None \<and>
          listing_id l \<notin> listing_id ` set ret
          \<longrightarrow> snd (filter_listings cfg clock seen ls) (listing_id l) = None)) \<and>
   ((\<forall>l\<in>set ls. finite_numbers l) \<longrightarrow>
      (\<exists>ret. fst (filter_listings cfg clock seen ls) = Inr ret))"
proof -
  have returns: "(\<forall>l\<in>set ls. finite_numbers l) \<longrightarrow>
      (\<exists>ret. fst (filter_listings cfg clock seen ls) = Inr ret)"
    using filter_loop_returns[of ls cfg clock seen 0]
    by (simp add: filter_listings_def returns_iff)
  have result: "\<forall>ret. fst (filter_listings cfg clock seen ls) = Inr ret \<longrightarrow>
      (\<forall>l\<in>set ret.
         l \<in> set ls \<and> meets_criteria cfg l = Inr True \<and>
         (\<exists>n. snd (filter_listings cfg clock seen ls) (listing_id l) = Some (clock n))) \<and>
      dom (snd (filter_listings cfg clock seen ls)) = dom seen \<union> listing_id ` set ret \<and>
      (\<forall>l\<in>set ls. meets_criteria cfg l \<noteq> Inr True \<and> seen (listing_id l) = None \<and>
          listing_id l \<notin> listing_id ` set ret
          \<longrightarrow> snd (filter_listings cfg clock seen ls) (listing_id l) = None)"
  proof (intro allI impI)
    fix ret
    assume "fst (filter_listings cfg clock seen ls) = Inr ret"
    then have r: "fst (filter_loop cfg clock ls seen [] 0) = Inr ret"
      by (simp add: filter_listings_def)
    have a: "\<forall>l\<in>set ret.
         l \<in> set ls \<and> meets_criteria cfg l = Inr True \<and>
         (\<exists>n. snd (filter_listings cfg clock seen ls) (listing_id l) = Some (clock n))"
      using filter_loop_returned[OF r] filter_loop_stamp[OF r]
      by (simp add: filter_listings_def)
    have keys: "dom (snd (filter_listings cfg clock seen ls)) = dom seen \<union> listing_id ` set ret"
      using filter_loop_dom[OF r] by (simp add: filter_listings_def)
    have "\<forall>l\<in>set ls. seen (listing_id l) = None \<and> listing_id l \<notin> listing_id ` set ret
       \<longrightarrow> listing_id l \<notin> dom (snd (filter_listings cfg clock seen ls))"
      unfolding keys by auto
    then have c: "\<forall>l\<in>set ls. meets_criteria cfg l \<noteq> Inr True \<and> seen (listing_id l) = None \<and>
          listing_id l \<notin> listing_id ` set ret
          \<longrightarrow> snd (filter_listings cfg clock seen ls) (listing_id l) = None"
      by (simp add: domIff)
    from a keys c show
      "(\<forall>l\<in>set ret.
         l \<in> set ls \<and> meets_criteria cfg l = Inr True \<and>
         (\<exists>n. snd (filter_listings cfg clock seen ls) (listing_id l) = Some (clock n))) \<and>
      dom (snd (filter_listings cfg clock seen ls)) = dom seen \<union> listing_id ` set ret \<and>
      (\<forall>l\<in>set ls. meets_criteria cfg l \<noteq> Inr True \<and> seen (listing_id l) = None \<and>
          listing_id l \<notin> listing_id ` set ret
          \<longrightarrow> snd (filter_listings cfg clock seen ls) (listing_id l) = None)"
      by blast
  qed
  from result returns show ?thesis by blast
qed

theorem filter_listings_registers_witness:
  "fst (filter_listings bypass_config tick_clock [''b-1'' \<mapsto> ''2024-01-01T00:00:00'']
          [ex_listing ''b-1'' ''Flat'' (VInt 900) (VInt 1),
           ex_listing ''b-2'' ''House'' (VInt 1300) (VInt 1)])
     = Inr [ex_listing ''b-1'' ''Flat'' (VInt 900) (VInt 1)] \<and>
   snd (filter_listings bypass_config tick_clock [''b-1'' \<mapsto> ''2024-01-01T00:00:00'']
          [ex_listing ''b-1'' ''Flat'' (VInt 900) (VInt 1),
           ex_listing ''b-2'' ''House'' (VInt 1300) (VInt 1)]) ''b-1'' = Some ''T0'' \<and>
   snd (filter_listings bypass_config tick_clock [''b-1'' \<mapsto> ''2024-01-01T00:00:00'']
          [ex_listing ''b-1'' ''Flat'' (VInt 900) (VInt 1),
           ex_listing ''b-2'' ''House'' (VInt 1300) (VInt 1)]) ''b-2'' = None"
proof -
  have m1: "meets_criteria bypass_config (ex_listing ''b-1'' ''Flat'' (VInt 900) (VInt 1)) = Inr True"
    by (simp add: meets_criteria_def bypass_config_def price_config_def empty_config_def
          no_filters_def price_check_def beds_check_def bound_check_def ex_listing_def)
  have m2: "meets_criteria bypass_config (ex_listing ''b-2'' ''House'' (VInt 1300) (VInt 1)) = Inr False"
    by (simp add: meets_criteria_def bypass_config_def price_config_def empty_config_def
          no_filters_def price_check_def beds_check_def bound_check_def ex_listing_def)
  have by_pass: "bypass_seen_check bypass_config"
    by (simp add: bypass_config_def)
  have id1: "listing_id (ex_listing ''b-1'' ''Flat'' (VInt 900) (VInt 1)) = ''b-1''"
    and id2: "listing_id (ex_listing ''b-2'' ''House'' (VInt 1300) (VInt 1)) = ''b-2''"
    by (simp_all add: ex_listing_def)
  have run: "filter_listings bypass_config tick_clock [''b-1'' \<mapsto> ''2024-01-01T00:00:00'']
          [ex_listing ''b-1'' ''Flat'' (VInt 900) (VInt 1),
           ex_listing ''b-2'' ''House'' (VInt 1300) (VInt 1)]
        = (Inr [ex_listing ''b-1'' ''Flat'' (VInt 900) (VInt 1)],
           [''b-1'' \<mapsto> ''2024-01-01T00:00:00'', ''b-1'' \<mapsto> tick_clock 0])"
    by (simp add: filter_listings_def m1 m2 by_pass id1 id2)
  have t0: "tick_clock 0 = ''T0''"
    by (simp add: tick_clock_def str_of_nat_def digits_of.simps)
  show ?thesis
    using filter_listings_registers[of bypass_config tick_clock
            "[''b-1'' \<mapsto> ''2024-01-01T00:00:00'']"
            "[ex_listing ''b-1'' ''Flat'' (VInt 900) (VInt 1),
              ex_listing ''b-2'' ''House'' (VInt 1300) (VInt 1)]"]
    by (simp add: run t0)
qed

text \<open>
  Claim C8 (site resolution), as stated, fails: a site whose entry has no
  \<^verbatim>\<open>"enabled"\<close> key is not explicitly enabled, and still it is the site processed,
  not rightmove.
\<close>

theorem enabled_sites_counterexample:
  "map (enabled \<circ> snd) (sites implicit_config) = [None] \<and>
   get_enabled_sites implicit_config = [''zoopla''] \<and>
   get_enabled_sites implicit_config \<noteq> [''rightmove'']"
  by (simp add: get_enabled_sites_def implicit_config_def empty_config_def)

text \<open>
  Claim C8, amended. A site counts as enabled unless its entry sets \<^verbatim>\<open>"enabled"\<close> to
  false. If no site of the config is enabled in this sense, the orchestrator processes
  exactly rightmove; otherwise it processes exactly the enabled sites, in the order of
  the config.
\<close>

theorem enabled_sites_default:
  "get_enabled_sites cfg =
     (if \<forall>(s, c)\<in>set (sites cfg). enabled c = Some False then [''rightmove'']
      else map fst (filter (\<lambda>(s, c). enabled c \<noteq> Some False) (sites cfg)))"
proof -
  have "(map fst (filter (\<lambda>(s, c). enabled c \<noteq> Some False) (sites cfg)) = [])
          = (\<forall>(s, c)\<in>set (sites cfg). enabled c = Some False)"
    by (auto simp add: filter_empty_conv)
  then show ?thesis
    by (simp add: get_enabled_sites_def enabled_loop_eq)
qed

theorem enabled_sites_default_witness:
  "get_enabled_sites mixed_config = [''zoopla'', ''openrent''] \<and>
   get_enabled_sites disabled_config = [''rightmove''] \<and>
   get_enabled_sites empty_config = [''rightmove'']"
  using enabled_sites_default[of mixed_config] enabled_sites_default[of disabled_config]
        enabled_sites_default[of empty_config]
  by (simp add: mixed_config_def disabled_config_def empty_config_def)

section \<open>Properties of a run\<close>

lemma fetch_site_quiet: "\<not> list_ex is_notification (snd (fetch_site sc s))"
  by (simp add: fetch_site_def fetching_line_def failed_line_def split: option.splits sum.splits)

lemma fetch_listings_quiet: "\<not> list_ex is_notification (snd (fetch_listings sc))"
  by (simp add: fetch_listings_def fetch_loop_eq list_ex_iff) (use fetch_site_quiet in \<open>auto simp: list_ex_iff\<close>)

lemma save_seen_listings_quiet: "\<not> list_ex is_notification (save_seen_listings w sc)"
  by (simp add: save_seen_listings_def split: sum.splits)

lemma run_scraper_quiet: "\<not> list_ex is_notification (snd (run_scraper w sc))"
  using fetch_listings_quiet[of sc] save_seen_listings_quiet
  by (simp add: run_scraper_def case_prod_beta Let_def split: sum.splits)

lemma site_b_fetch:
  "adapters sc (lower s) = Some site_b \<Longrightarrow>
   fst (fetch_site sc s) = [ex_listing ''b-1'' ''Flat'' (VInt 900) (VInt 1),
                            ex_listing ''b-2'' ''House'' (VInt 1300) (VInt 1)]"
  by (simp add: fetch_site_def site_b_def)

text \<open>
  Claim C1 (stages of a run) at a run that finds two new listings, with a mail entry in
  the config and a mail server that accepts every message: \<^verbatim>\<open>run_scraper\<close> logs
  "User notified", and its trace has no mail and no console line, whereas
  \<^verbatim>\<open>notify_user\<close> on the same filtered listings sends a mail. The Dedup Store is
  written and holds both ids.
\<close>

theorem run_scraper_no_notification:
  "Log INFO ''User notified'' \<in> set (snd (run_scraper ok_world mail_scanner)) \<and>
   \<not> list_ex is_notification (snd (run_scraper ok_world mail_scanner)) \<and>
   fst (filter_listings mail_config tick_clock Map.empty (fst (fetch_listings mail_scanner)))
     = Inr [ex_listing ''b-1'' ''Flat'' (VInt 900) (VInt 1),
            ex_listing ''b-2'' ''House'' (VInt 1300) (VInt 1)] \<and>
   list_ex is_notification
     (notify_user ok_world mail_config 2
        [ex_listing ''b-1'' ''Flat'' (VInt 900) (VInt 1),
         ex_listing ''b-2'' ''House'' (VInt 1300) (VInt 1)]) \<and>
   SeenSaved \<in> set (snd (run_scraper ok_world mail_scanner)) \<and>
   dom (seen_listings (fst (run_scraper ok_world mail_scanner))) = {''b-1'', ''b-2''}"
proof -
  have en: "get_enabled_sites mail_config = [''siteB'']"
    by (simp add: get_enabled_sites_def mail_config_def empty_config_def)
  have lb: "lower ''siteB'' = ''siteb''"
    by (simp add: lower_def lower_char_def)
  have ad: "adapters mail_scanner (lower ''siteB'') = Some site_b"
    by (simp add: lb mail_scanner_def)
  have fetched: "fst (fetch_listings mail_scanner)
                   = [ex_listing ''b-1'' ''Flat'' (VInt 900) (VInt 1),
                      ex_listing ''b-2'' ''House'' (VInt 1300) (VInt 1)]"
    using site_b_fetch[OF ad]
    by (simp add: fetch_listings_def fetch_loop_eq en mail_scanner_def)
  have m: "meets_criteria mail_config (ex_listing i t p b) = Inr True" for i t p b
    by (simp add: meets_criteria_def mail_config_def empty_config_def no_filters_def
          price_check_def beds_check_def bound_check_def matches_keyword_def)
  have nb: "\<not> bypass_seen_check mail_config"
    by (simp add: mail_config_def empty_config_def)
  have id1: "listing_id (ex_listing ''b-1'' ''Flat'' (VInt 900) (VInt 1)) = ''b-1''"
    and id2: "listing_id (ex_listing ''b-2'' ''House'' (VInt 1300) (VInt 1)) = ''b-2''"
    by (simp_all add: ex_listing_def)
  have filtered: "filter_listings mail_config tick_clock Map.empty
                    [ex_listing ''b-1'' ''Flat'' (VInt 900) (VInt 1),
                     ex_listing ''b-2'' ''House'' (VInt 1300) (VInt 1)]
                  = (Inr [ex_listing ''b-1'' ''Flat'' (VInt 900) (VInt 1),
                          ex_listing ''b-2'' ''House'' (VInt 1300) (VInt 1)],
                     [''b-1'' \<mapsto> tick_clock 0, ''b-2'' \<mapsto> tick_clock 1])"
    by (simp add: filter_listings_def m nb id1 id2)
  have cfg: "sc_config mail_scanner = mail_config" and seen: "seen_listings mail_scanner = Map.empty"
    and clk: "now ok_world = tick_clock"
    by (simp_all add: mail_scanner_def ok_world_def)
  have a: "Log INFO ''User notified'' \<in> set (snd (run_scraper ok_world mail_scanner))"
    by (simp add: run_scraper_def case_prod_beta Let_def cfg seen clk fetched filtered)
  have b: "\<not> list_ex is_notification (snd (run_scraper ok_world mail_scanner))"
    by (rule run_scraper_quiet)
  have f: "fst (filter_listings mail_config tick_clock Map.empty (fst (fetch_listings mail_scanner)))
     = Inr [ex_listing ''b-1'' ''Flat'' (VInt 900) (VInt 1),
            ex_listing ''b-2'' ''House'' (VInt 1300) (VInt 1)]"
    by (simp add: fetched filtered)
  have c: "list_ex is_notification
     (notify_user ok_world mail_config 2
        [ex_listing ''b-1'' ''Flat'' (VInt 900) (VInt 1),
         ex_listing ''b-2'' ''House'' (VInt 1300) (VInt 1)])"
    by (simp add: notify_user_def send_email_def mail_config_def ok_world_def)
  have d: "SeenSaved \<in> set (snd (run_scraper ok_world mail_scanner))"
    by (simp add: run_scraper_def case_prod_beta Let_def cfg seen clk fetched filtered
          save_seen_listings_def ok_world_def)
  have e: "dom (seen_listings (fst (run_scraper ok_world mail_scanner))) = {''b-1'', ''b-2''}"
    by (auto simp add: run_scraper_def case_prod_beta Let_def cfg seen clk fetched filtered)
  from a b f c d e show ?thesis by blast
qed

text \<open>
  Claim C2 (config-load failure is fatal), as stated, fails on the orchestrator: the
  config file cannot be read, and the scanner built by \<^verbatim>\<open>PropertyScanner.__init__\<close>
  still invokes the rightmove adapter and fetches its two listings.
\<close>

theorem config_failure_counterexample:
  "read_config bad_world = Inl (Exn ''No such file or directory'') \<and>
   fst (fetch_listings (fst (init_scanner bad_world demo_registry)))
     = [ex_listing ''b-1'' ''Flat'' (VInt 900) (VInt 1),
        ex_listing ''b-2'' ''House'' (VInt 1300) (VInt 1)]"
proof -
  have sc: "fst (init_scanner bad_world demo_registry)
              = \<lparr>sc_config = empty_config, seen_listings = Map.empty,
                 adapters = [''rightmove'' \<mapsto> site_b]\<rparr>"
    by (simp add: init_scanner_def load_config_scanner_def load_seen_listings_def
          bad_world_def demo_registry_def)
  have en: "get_enabled_sites empty_config = [''rightmove'']"
    by (simp add: get_enabled_sites_def empty_config_def)
  have lr: "lower ''rightmove'' = ''rightmove''"
    by (simp add: lower_def lower_char_def)
  have "fst (fetch_site \<lparr>sc_config = empty_config, seen_listings = Map.empty,
                         adapters = [''rightmove'' \<mapsto> site_b]\<rparr> ''rightmove'')
          = [ex_listing ''b-1'' ''Flat'' (VInt 900) (VInt 1),
             ex_listing ''b-2'' ''House'' (VInt 1300) (VInt 1)]"
    by (rule site_b_fetch) (simp add: lr)
  then show ?thesis
    by (simp add: sc fetch_listings_def fetch_loop_eq en) (simp add: bad_world_def)
qed

text \<open>
  Claim C2, amended. A config-load failure is fatal in the command-line wrapper only:
  \<^verbatim>\<open>main\<close> of \<^verbatim>\<open>run_scraper.py\<close> prints the error and leaves with status 1 before the
  scanner is built, so no adapter is invoked. The orchestrator's own loader catches the
  failure, logs it and goes on with the empty config, so a run of the scanner processes
  the default site rightmove and no other.
\<close>

theorem config_failure_handling:
  assumes "read_config w = Inl e"
  shows "main w registry = (Exit 1, [Printed (''Error loading config file: '' @ exn_text e)]) \<and>
         sc_config (fst (init_scanner w registry)) = empty_config \<and>
         Log ERROR (''Failed to load config: '' @ exn_text e) \<in> set (snd (init_scanner w registry)) \<and>
         get_enabled_sites (sc_config (fst (init_scanner w registry))) = [''rightmove''] \<and>
         fst (fetch_listings (fst (init_scanner w registry)))
           = site_contribution (fst (init_scanner w registry)) ''rightmove''"
proof -
  have m: "main w registry = (Exit 1, [Printed (''Error loading config file: '' @ exn_text e)])"
    using assms by (simp add: main_def load_config_cli_def)
  have c: "sc_config (fst (init_scanner w registry)) = empty_config"
    using assms by (simp add: init_scanner_def load_config_scanner_def case_prod_beta)
  have l: "Log ERROR (''Failed to load config: '' @ exn_text e) \<in> set (snd (init_scanner w registry))"
    using assms by (simp add: init_scanner_def load_config_scanner_def case_prod_beta)
  have en: "get_enabled_sites (sc_config (fst (init_scanner w registry))) = [''rightmove'']"
    by (simp add: c get_enabled_sites_def empty_config_def)
  have f: "fst (fetch_listings (fst (init_scanner w registry)))
           = site_contribution (fst (init_scanner w registry)) ''rightmove''"
    by (simp add: fetch_listings_def fetch_loop_eq en fetch_site_fst)
  from m c l en f show ?thesis by blast
qed

theorem config_failure_handling_witness:
  "main bad_world demo_registry
     = (Exit 1, [Printed ''Error loading config file: No such file or directory'']) \<and>
   sc_config (fst (init_scanner bad_world demo_registry)) = empty_config \<and>
   get_enabled_sites (sc_config (fst (init_scanner bad_world demo_registry))) = [''rightmove'']"
proof -
  have r: "read_config bad_world = Inl (Exn ''No such file or directory'')"
    by (simp add: bad_world_def)
  have en: "get_enabled_sites empty_config = [''rightmove'']"
    by (simp add: get_enabled_sites_def empty_config_def)
  show ?thesis
    using config_failure_handling[OF r, of demo_registry] by (simp add: en)
qed

section \<open>Properties of the adapters\<close>

lemma alt_differs: "alt_user_agent \<noteq> default_user_agent"
  by (simp add: alt_user_agent_def default_user_agent_def)

lemma user_agent_default: "user_agent \<lparr>req_url = u, req_headers = site_headers s\<rparr> = Some default_user_agent"
  by (cases s) (simp_all add: user_agent_def base_headers_def zoopla_headers_def)

lemma user_agent_alt:
  "user_agent \<lparr>req_url = u, req_headers = AList.update ''User-Agent'' alt_user_agent hdrs\<rparr>
     = Some alt_user_agent"
  by (simp add: user_agent_def update_conv')

lemma retries_plain: "retries [\<lparr>req_url = u, req_headers = site_headers s\<rparr>] = []"
  using alt_differs by (simp add: retries_def user_agent_default)

lemma retries_two:
  "retries [\<lparr>req_url = u, req_headers = site_headers s\<rparr>,
            \<lparr>req_url = v, req_headers = site_headers s\<rparr>] = []"
  using alt_differs by (simp add: retries_def user_agent_default)

lemma retries_three:
  "retries [\<lparr>req_url = u, req_headers = site_headers s\<rparr>,
            \<lparr>req_url = v, req_headers = site_headers s\<rparr>,
            \<lparr>req_url = v, req_headers = AList.update ''User-Agent'' alt_user_agent (site_headers s)\<rparr>]
     = [\<lparr>req_url = v, req_headers = AList.update ''User-Agent'' alt_user_agent (site_headers s)\<rparr>]"
  using alt_differs by (simp add: retries_def user_agent_default user_agent_alt)

lemma session_retries_le:
  "length (retries (snd (session_fetch_listings home (site_headers s) net [] url))) \<le> 1"
  using retries_plain[of home s] retries_two[of home s url] retries_three[of home s url]
  by (simp add: session_fetch_listings_def Let_def split: sum.splits)

lemma base_trace:
  "snd (base_fetch_listings hdrs net [] url) = [\<lparr>req_url = url, req_headers = hdrs\<rparr>]"
  by (simp add: base_fetch_listings_def Let_def)

lemma retries_le_one: "length (retries (snd (site_fetch_listings s net [] url))) \<le> 1"
proof (cases "site_home s")
  case None
  then show ?thesis
    by (simp add: site_fetch_listings_def base_trace retries_plain)
next
  case (Some home)
  then show ?thesis
    using session_retries_le[of home s net url] by (simp add: site_fetch_listings_def)
qed

text \<open>
  Claim C7 (retry on 403), as stated, fails for the adapters that inherit the fetch
  method of the base class: onthemarket gets status 403 and sends that one request only.
\<close>

theorem retry_counterexample:
  "site_fetch_listings OnTheMarket blocked_net [] ''https://www.onthemarket.com/to-rent/''
     = (Inr ''Forbidden'',
        [\<lparr>req_url = ''https://www.onthemarket.com/to-rent/'', req_headers = base_headers\<rparr>]) \<and>
   retries (snd (site_fetch_listings OnTheMarket blocked_net []
                   ''https://www.onthemarket.com/to-rent/'')) = []"
proof -
  have run: "site_fetch_listings OnTheMarket blocked_net [] ''https://www.onthemarket.com/to-rent/''
     = (Inr ''Forbidden'',
        [\<lparr>req_url = ''https://www.onthemarket.com/to-rent/'', req_headers = base_headers\<rparr>])"
    by (simp add: site_fetch_listings_def base_fetch_listings_def blocked_net_def)
  show ?thesis
    using retries_plain[of "''https://www.onthemarket.com/to-rent/''" OnTheMarket]
    by (simp add: run)
qed

text \<open>
  Claim C7, amended. No adapter sends more than one request with the alternate client
  identity. The rightmove and zoopla adapters, when the search page answers with status
  403, send it exactly one more request, with the alternate User-Agent, which differs
  from the first one, and return what that request brings, whatever its status; when the
  search page answers with another status they send no retry. The onthemarket,
  spareroom and openrent adapters send a single request and never retry.
\<close>

theorem retry_once:
  "length (retries (snd (site_fetch_listings s net [] url))) \<le> 1 \<and>
   (\<forall>home c resp.
      site_home s = Some home \<and>
      net [] \<lparr>req_url = home, req_headers = site_headers s\<rparr> = Inr c \<and>
      net [\<lparr>req_url = home, req_headers = site_headers s\<rparr>]
          \<lparr>req_url = url, req_headers = site_headers s\<rparr> = Inr resp
      \<longrightarrow>
      (status_code resp = 403 \<longrightarrow>
         snd (site_fetch_listings s net [] url)
           = [\<lparr>req_url = home, req_headers = site_headers s\<rparr>,
              \<lparr>req_url = url, req_headers = site_headers s\<rparr>,
              \<lparr>req_url = url,
               req_headers = AList.update ''User-Agent'' alt_user_agent (site_headers s)\<rparr>] \<and>
         fst (site_fetch_listings s net [] url)
           = (case net [\<lparr>req_url = home, req_headers = site_headers s\<rparr>,
                        \<lparr>req_url = url, req_headers = site_headers s\<rparr>]
                       \<lparr>req_url = url,
                        req_headers = AList.update ''User-Agent'' alt_user_agent (site_headers s)\<rparr> of
                Inl e \<Rightarrow> Inr []
              | Inr resp2 \<Rightarrow> Inr (response_text resp2)) \<and>
         retries (snd (site_fetch_listings s net [] url))
           = [\<lparr>req_url = url,
               req_headers = AList.update ''User-Agent'' alt_user_agent (site_headers s)\<rparr>] \<and>
         user_agent \<lparr>req_url = url, req_headers = site_headers s\<rparr> = Some default_user_agent \<and>
         user_agent \<lparr>req_url = url,
                     req_headers = AList.update ''User-Agent'' alt_user_agent (site_headers s)\<rparr>
           = Some alt_user_agent \<and>
         alt_user_agent \<noteq> default_user_agent) \<and>
      (status_code resp \<noteq> 403 \<longrightarrow>
         fst (site_fetch_listings s net [] url) = Inr (response_text resp) \<and>
         retries (snd (site_fetch_listings s net [] url)) = [])) \<and>
   (site_home s = None \<longrightarrow>
      snd (site_fetch_listings s net [] url) = [\<lparr>req_url = url, req_headers = base_headers\<rparr>] \<and>
      retries (snd (site_fetch_listings s net [] url)) = [])"
proof -
  have session: "\<forall>home c resp.
      site_home s = Some home \<and>
      net [] \<lparr>req_url = home, req_headers = site_headers s\<rparr> = Inr c \<and>
      net [\<lparr>req_url = home, req_headers = site_headers s\<rparr>]
          \<lparr>req_url = url, req_headers = site_headers s\<rparr> = Inr resp
      \<longrightarrow>
      (status_code resp = 403 \<longrightarrow>
         snd (site_fetch_listings s net [] url)
           = [\<lparr>req_url = home, req_headers = site_headers s\<rparr>,
              \<lparr>req_url = url, req_headers = site_headers s\<rparr>,
              \<lparr>req_url = url,
               req_headers = AList.update ''User-Agent'' alt_user_agent (site_headers s)\<rparr>] \<and>
         fst (site_fetch_listings s net [] url)
           = (case net [\<lparr>req_url = home, req_headers = site_headers s\<rparr>,
                        \<lparr>req_url = url, req_headers = site_headers s\<rparr>]
                       \<lparr>req_url = url,
                        req_headers = AList.update ''User-Agent'' alt_user_agent (site_headers s)\<rparr> of
                Inl e \<Rightarrow> Inr []
              | Inr resp2 \<Rightarrow> Inr (response_text resp2)) \<and>
         retries (snd (site_fetch_listings s net [] url))
           = [\<lparr>req_url = url,
               req_headers = AList.update ''User-Agent'' alt_user_agent (site_headers s)\<rparr>] \<and>
         user_agent \<lparr>req_url = url, req_headers = site_headers s\<rparr> = Some default_user_agent \<and>
         user_agent \<lparr>req_url = url,
                     req_headers = AList.update ''User-Agent'' alt_user_agent (site_headers s)\<rparr>
           = Some alt_user_agent \<and>
         alt_user_agent \<noteq> default_user_agent) \<and>
      (status_code resp \<noteq> 403 \<longrightarrow>
         fst (site_fetch_listings s net [] url) = Inr (response_text resp) \<and>
         retries (snd (site_fetch_listings s net [] url)) = [])"
  proof (intro allI impI, elim conjE)
    fix home c resp
    assume h: "site_home s = Some home"
      and n0: "net [] \<lparr>req_url = home, req_headers = site_headers s\<rparr> = Inr c"
      and n1: "net [\<lparr>req_url = home, req_headers = site_headers s\<rparr>]
                   \<lparr>req_url = url, req_headers = site_headers s\<rparr> = Inr resp"
    have blocked: "status_code resp = 403 \<Longrightarrow>
         snd (site_fetch_listings s net [] url)
           = [\<lparr>req_url = home, req_headers = site_headers s\<rparr>,
              \<lparr>req_url = url, req_headers = site_headers s\<rparr>,
              \<lparr>req_url = url,
               req_headers = AList.update ''User-Agent'' alt_user_agent (site_headers s)\<rparr>]"
      using h n0 n1
      by (simp add: site_fetch_listings_def session_fetch_listings_def Let_def split: sum.splits)
    have returned: "status_code resp = 403 \<Longrightarrow>
         fst (site_fetch_listings s net [] url)
           = (case net [\<lparr>req_url = home, req_headers = site_headers s\<rparr>,
                        \<lparr>req_url = url, req_headers = site_headers s\<rparr>]
                       \<lparr>req_url = url,
                        req_headers = AList.update ''User-Agent'' alt_user_agent (site_headers s)\<rparr> of
                Inl e \<Rightarrow> Inr []
              | Inr resp2 \<Rightarrow> Inr (response_text resp2))"
      using h n0 n1
      by (simp add: site_fetch_listings_def session_fetch_listings_def Let_def split: sum.splits)
    have passed: "status_code resp \<noteq> 403 \<Longrightarrow>
         site_fetch_listings s net [] url
           = (Inr (response_text resp),
              [\<lparr>req_url = home, req_headers = site_headers s\<rparr>,
               \<lparr>req_url = url, req_headers = site_headers s\<rparr>])"
      using h n0 n1
      by (simp add: site_fetch_listings_def session_fetch_listings_def Let_def)
    show "(status_code resp = 403 \<longrightarrow>
         snd (site_fetch_listings s net [] url)
           = [\<lparr>req_url = home, req_headers = site_headers s\<rparr>,
              \<lparr>req_url = url, req_headers = site_headers s\<rparr>,
              \<lparr>req_url = url,
               req_headers = AList.update ''User-Agent'' alt_user_agent (site_headers s)\<rparr>] \<and>
         fst (site_fetch_listings s net [] url)
           = (case net [\<lparr>req_url = home, req_headers = site_headers s\<rparr>,
                        \<lparr>req_url = url, req_headers = site_headers s\<rparr>]
                       \<lparr>req_url = url,
                        req_headers = AList.update ''User-Agent'' alt_user_agent (site_headers s)\<rparr> of
                Inl e \<Rightarrow> Inr []
              | Inr resp2 \<Rightarrow> Inr (response_text resp2)) \<and>
         retries (snd (site_fetch_listings s net [] url))
           = [\<lparr>req_url = url,
               req_headers = AList.update ''User-Agent'' alt_user_agent (site_headers s)\<rparr>] \<and>
         user_agent \<lparr>req_url = url, req_headers = site_headers s\<rparr> = Some default_user_agent \<and>
         user_agent \<lparr>req_url = url,
                     req_headers = AList.update ''User-Agent'' alt_user_agent (site_headers s)\<rparr>
           = Some alt_user_agent \<and>
         alt_user_agent \<noteq> default_user_agent) \<and>
      (status_code resp \<noteq> 403 \<longrightarrow>
         fst (site_fetch_listings s net [] url) = Inr (response_text resp) \<and>
         retries (snd (site_fetch_listings s net [] url)) = [])"
      using blocked returned passed retries_three[of home s url] retries_two[of home s url]
            user_agent_default[of url s] user_agent_alt[of url "site_headers s"] alt_differs
      by auto
  qed
  have base: "site_home s = None \<longrightarrow>
      snd (site_fetch_listings s net [] url) = [\<lparr>req_url = url, req_headers = base_headers\<rparr>] \<and>
      retries (snd (site_fetch_listings s net [] url)) = []"
    using retries_plain[of url s]
    by (cases s) (simp_all add: site_fetch_listings_def base_trace)
  from retries_le_one session base show ?thesis by blast
qed

theorem retry_once_witness:
  "fst (site_fetch_listings Rightmove blocked_net [] ''https://www.rightmove.co.uk/find'')
     = Inr ''Forbidden'' \<and>
   fst (site_fetch_listings Zoopla retry_net [] ''https://www.zoopla.co.uk/to-rent/'')
     = Inr ''<html>second</html>'' \<and>
   snd (site_fetch_listings Rightmove blocked_net [] ''https://www.rightmove.co.uk/find'')
     = [\<lparr>req_url = ''https://www.rightmove.co.uk/'', req_headers = base_headers\<rparr>,
        \<lparr>req_url = ''https://www.rightmove.co.uk/find'', req_headers = base_headers\<rparr>,
        \<lparr>req_url = ''https://www.rightmove.co.uk/find'',
         req_headers = AList.update ''User-Agent'' alt_user_agent base_headers\<rparr>] \<and>
   length (retries (snd (site_fetch_listings Zoopla blocked_net []
                           ''https://www.zoopla.co.uk/to-rent/''))) = 1 \<and>
   retries (snd (site_fetch_listings Zoopla open_net [] ''https://www.zoopla.co.uk/to-rent/'')) = [] \<and>
   retries (snd (site_fetch_listings Spareroom blocked_net []
                   ''https://www.spareroom.co.uk/flatshare/'')) = []"
proof -
  have b: "blocked_net h r = Inr \<lparr>status_code = 403, response_text = ''Forbidden''\<rparr>" for h r
    by (simp add: blocked_net_def)
  have o: "open_net h r = Inr \<lparr>status_code = 200, response_text = ''<html>''\<rparr>" for h r
    by (simp add: open_net_def)
  have w0: "fst (site_fetch_listings Rightmove blocked_net [] ''https://www.rightmove.co.uk/find'')
     = Inr ''Forbidden''"
    using retry_once[of Rightmove blocked_net "''https://www.rightmove.co.uk/find''"]
    by (simp add: b)
  have r1: "retry_net [] r = Inr \<lparr>status_code = 200, response_text = ''<html>home</html>''\<rparr>"
    and r2: "retry_net [x] r = Inr \<lparr>status_code = 403, response_text = ''Forbidden''\<rparr>"
    and r3: "retry_net [x, y] r = Inr \<lparr>status_code = 200, response_text = ''<html>second</html>''\<rparr>"
    for r x y
    by (simp_all add: retry_net_def)
  have w0': "fst (site_fetch_listings Zoopla retry_net [] ''https://www.zoopla.co.uk/to-rent/'')
     = Inr ''<html>second</html>''"
    using retry_once[of Zoopla retry_net "''https://www.zoopla.co.uk/to-rent/''"]
    by (simp add: r1 r2 r3)
  have w1: "snd (site_fetch_listings Rightmove blocked_net [] ''https://www.rightmove.co.uk/find'')
     = [\<lparr>req_url = ''https://www.rightmove.co.uk/'', req_headers = base_headers\<rparr>,
        \<lparr>req_url = ''https://www.rightmove.co.uk/find'', req_headers = base_headers\<rparr>,
        \<lparr>req_url = ''https://www.rightmove.co.uk/find'',
         req_headers = AList.update ''User-Agent'' alt_user_agent base_headers\<rparr>]"
    using retry_once[of Rightmove blocked_net "''https://www.rightmove.co.uk/find''"]
    by (simp add: b)
  have "snd (site_fetch_listings Zoopla blocked_net [] ''https://www.zoopla.co.uk/to-rent/'')
     = [\<lparr>req_url = ''https://www.zoopla.co.uk/'', req_headers = zoopla_headers\<rparr>,
        \<lparr>req_url = ''https://www.zoopla.co.uk/to-rent/'', req_headers = zoopla_headers\<rparr>,
        \<lparr>req_url = ''https://www.zoopla.co.uk/to-rent/'',
         req_headers = AList.update ''User-Agent'' alt_user_agent zoopla_headers\<rparr>]"
    using retry_once[of Zoopla blocked_net "''https://www.zoopla.co.uk/to-rent/''"]
    by (simp add: b)
  then have w2: "length (retries (snd (site_fetch_listings Zoopla blocked_net []
                           ''https://www.zoopla.co.uk/to-rent/''))) = 1"
    using retries_three[of "''https://www.zoopla.co.uk/''" Zoopla
            "''https://www.zoopla.co.uk/to-rent/''"]
    by simp
  have w3: "retries (snd (site_fetch_listings Zoopla open_net []
                            ''https://www.zoopla.co.uk/to-rent/'')) = []"
    using retry_once[of Zoopla open_net "''https://www.zoopla.co.uk/to-rent/''"]
    by (simp add: o)
  have w4: "retries (snd (site_fetch_listings Spareroom blocked_net []
                   ''https://www.spareroom.co.uk/flatshare/'')) = []"
    using retry_once[of Spareroom blocked_net "''https://www.spareroom.co.uk/flatshare/''"]
          site_home.simps(3)
    by blast
  from w0 w0' w1 w2 w3 w4 show ?thesis by blast
qed

lemma in_map_filter: "y \<in> set (List.map_filter f xs) \<longleftrightarrow> (\<exists>x\<in>set xs. f x = Some y)"
  by (induction xs) (auto split: option.splits)

lemma digits_of_nonempty: "digits_of n \<noteq> []"
proof (cases "n < 10")
  case True
  then have "digits_of n = [''0123456789'' ! n]"
    by (subst digits_of.simps) simp
  then show ?thesis by simp
next
  case False
  then have "digits_of n = digits_of (n div 10) @ [''0123456789'' ! (n mod 10)]"
    by (subst digits_of.simps) simp
  then show ?thesis by simp
qed

lemma py_str_nonempty: "py_truthy v \<Longrightarrow> py_str v \<noteq> []"
  by (cases v) (simp_all add: str_of_int_def digits_of_nonempty)

lemma zoopla_card_id:
  "zoopla_parse_card c = Some l \<Longrightarrow>
   source l = ''zoopla'' \<and> (\<exists>raw. raw \<noteq> [] \<and> listing_id l = ''zoopla-'' @ raw)"
  by (auto simp add: zoopla_parse_card_def Let_def split: if_splits sum.splits)

lemma zoopla_prop_id:
  "zoopla_parse_prop p = Some l \<Longrightarrow>
   source l = ''zoopla'' \<and> (\<exists>raw. raw \<noteq> [] \<and> listing_id l = ''zoopla-'' @ raw)"
  by (auto simp add: zoopla_parse_prop_def Let_def py_str_nonempty split: if_splits sum.splits)

lemma onthemarket_card_id:
  "onthemarket_parse_card c = Some l \<Longrightarrow>
   source l = ''onthemarket'' \<and> (\<exists>raw. raw \<noteq> [] \<and> listing_id l = ''otm-'' @ raw)"
  by (auto simp add: onthemarket_parse_card_def Let_def split: if_splits sum.splits)

lemma spareroom_card_id_nonempty: "spareroom_card_id c \<noteq> []"
  by (simp add: spareroom_card_id_def Let_def)

lemma spareroom_card_id':
  "spareroom_parse_card c = Some l \<Longrightarrow>
   source l = ''spareroom'' \<and> (\<exists>raw. raw \<noteq> [] \<and> listing_id l = ''spareroom-'' @ raw)"
  using spareroom_card_id_nonempty[of c]
  by (auto simp add: spareroom_parse_card_def Let_def split: sum.splits)

lemma openrent_card_id:
  "openrent_parse_card c = Some l \<Longrightarrow>
   source l = ''openrent'' \<and> (\<exists>raw. raw \<noteq> [] \<and> listing_id l = ''openrent-'' @ raw)"
  by (auto simp add: openrent_parse_card_def Let_def split: if_splits sum.splits)

lemma parsed_id:
  assumes "s \<noteq> Rightmove" and "l \<in> set (site_parse_listings s d)"
  shows "source l = site_name s \<and> (\<exists>raw. raw \<noteq> [] \<and> listing_id l = id_tag s @ raw)"
proof (cases s)
  case Rightmove
  then show ?thesis using assms by simp
next
  case Zoopla
  then have "(\<exists>c. zoopla_parse_card c = Some l) \<or> (\<exists>p. zoopla_parse_prop p = Some l)"
    using assms(2) by (auto simp add: zoopla_parse_listings_def Let_def in_map_filter split: if_splits)
  then show ?thesis
    using Zoopla zoopla_card_id zoopla_prop_id by auto
next
  case Spareroom
  then have "\<exists>c. spareroom_parse_card c = Some l"
    using assms(2) by (auto simp add: spareroom_parse_listings_def in_map_filter)
  then show ?thesis
    using Spareroom spareroom_card_id' by auto
next
  case OnTheMarket
  then have "\<exists>c. onthemarket_parse_card c = Some l"
    using assms(2) by (auto simp add: onthemarket_parse_listings_def in_map_filter)
  then show ?thesis
    using OnTheMarket onthemarket_card_id by auto
next
  case OpenRent
  then have "\<exists>c. openrent_parse_card c = Some l"
    using assms(2) by (auto simp add: openrent_parse_listings_def in_map_filter)
  then show ?thesis
    using OpenRent openrent_card_id by auto
qed

lemma id_tag_disjoint:
  "s \<noteq> Rightmove \<Longrightarrow> s' \<noteq> Rightmove \<Longrightarrow> s \<noteq> s' \<Longrightarrow> id_tag s @ raw \<noteq> id_tag s' @ raw'"
  by (cases s; cases s') simp_all

text \<open>
  Claim C3 (ids prefixed by the source name), as stated, fails: the rightmove adapter
  takes the raw identifier as the id, with no prefix; the onthemarket adapter prefixes
  \<^verbatim>\<open>otm-\<close>, which is not its source name; and a rightmove identifier that reads
  \<^verbatim>\<open>zoopla-42\<close> gives the id of the zoopla listing 42.
\<close>

theorem listing_id_counterexample:
  "map listing_id (site_parse_listings Rightmove json_doc) = [''123''] \<and>
   map source (site_parse_listings Rightmove json_doc) = [''rightmove''] \<and>
   \<not> prefix ''rightmove'' ''123'' \<and>
   map listing_id (site_parse_listings OnTheMarket card_doc) = [''otm-42''] \<and>
   map source (site_parse_listings OnTheMarket card_doc) = [''onthemarket''] \<and>
   \<not> prefix ''onthemarket'' ''otm-42'' \<and>
   map listing_id (site_parse_listings Rightmove clash_doc) = [''zoopla-42''] \<and>
   map listing_id (site_parse_listings Zoopla card_doc) = [''zoopla-42'']"
  by (simp add: rightmove_parse_listings_def rightmove_parse_prop_def json_doc_def clash_doc_def
        ex_prop_def str_of_int_def digits_of.simps
        onthemarket_parse_listings_def onthemarket_parse_card_def
        zoopla_parse_listings_def zoopla_parse_card_def
        card_id_elem_def get_attr_def card_doc_def ex_card_def)

text \<open>
  Claim C3, amended. Every listing produced by the zoopla, spareroom, openrent and
  onthemarket adapters carries its adapter's site name as source, and its id is a fixed
  tag followed by a non-empty raw identifier. For zoopla, spareroom and openrent the
  tag is the source name and a hyphen; for onthemarket it is \<^verbatim>\<open>otm-\<close>. Ids that two
  of these four adapters produce for different sources are never equal.
\<close>

theorem listing_id_prefix:
  "(s \<noteq> Rightmove \<longrightarrow>
      (\<forall>l\<in>set (site_parse_listings s d).
         source l = site_name s \<and> (\<exists>raw. raw \<noteq> [] \<and> listing_id l = id_tag s @ raw))) \<and>
   (s = Zoopla \<or> s = Spareroom \<or> s = OpenRent \<longrightarrow> id_tag s = site_name s @ ''-'') \<and>
   id_tag OnTheMarket = ''otm-'' \<and>
   (\<forall>s' d' l l'.
      s \<noteq> Rightmove \<and> s' \<noteq> Rightmove \<and> s \<noteq> s' \<and>
      l \<in> set (site_parse_listings s d) \<and> l' \<in> set (site_parse_listings s' d')
      \<longrightarrow> listing_id l \<noteq> listing_id l')"
proof -
  have ids: "s \<noteq> Rightmove \<longrightarrow>
      (\<forall>l\<in>set (site_parse_listings s d).
         source l = site_name s \<and> (\<exists>raw. raw \<noteq> [] \<and> listing_id l = id_tag s @ raw))"
    using parsed_id by blast
  have tags: "s = Zoopla \<or> s = Spareroom \<or> s = OpenRent \<longrightarrow> id_tag s = site_name s @ ''-''"
    by auto
  have apart: "\<forall>s' d' l l'.
      s \<noteq> Rightmove \<and> s' \<noteq> Rightmove \<and> s \<noteq> s' \<and>
      l \<in> set (site_parse_listings s d) \<and> l' \<in> set (site_parse_listings s' d')
      \<longrightarrow> listing_id l \<noteq> listing_id l'"
  proof (intro allI impI, elim conjE)
    fix s' d' l l'
    assume a: "s \<noteq> Rightmove" "s' \<noteq> Rightmove" "s \<noteq> s'"
      and l: "l \<in> set (site_parse_listings s d)" and l': "l' \<in> set (site_parse_listings s' d')"
    obtain raw where r: "listing_id l = id_tag s @ raw"
      using parsed_id[OF a(1) l] by blast
    obtain raw' where r': "listing_id l' = id_tag s' @ raw'"
      using parsed_id[OF a(2) l'] by blast
    show "listing_id l \<noteq> listing_id l'"
      unfolding r r' using a by (rule id_tag_disjoint)
  qed
  from ids tags apart show ?thesis by simp
qed

theorem listing_id_prefix_witness:
  "map listing_id (site_parse_listings Zoopla card_doc) = [''zoopla-42''] \<and>
   map listing_id (site_parse_listings Spareroom card_doc) = [''spareroom-42''] \<and>
   map listing_id (site_parse_listings OpenRent card_doc) = [''openrent-42''] \<and>
   map listing_id (site_parse_listings OnTheMarket card_doc) = [''otm-42''] \<and>
   map source (site_parse_listings Zoopla card_doc) = [''zoopla''] \<and>
   set (map listing_id (site_parse_listings Zoopla card_doc))
     \<inter> set (map listing_id (site_parse_listings Spareroom card_doc)) = {}"
proof -
  have z: "map listing_id (site_parse_listings Zoopla card_doc) = [''zoopla-42'']"
    by (simp add: zoopla_parse_listings_def zoopla_parse_card_def
          card_id_elem_def get_attr_def card_doc_def ex_card_def)
  have sp: "map listing_id (site_parse_listings Spareroom card_doc) = [''spareroom-42'']"
    by (simp add: spareroom_parse_listings_def spareroom_parse_card_def spareroom_card_id_def
          get_attr_def card_doc_def ex_card_def)
  have op: "map listing_id (site_parse_listings OpenRent card_doc) = [''openrent-42'']"
    by (simp add: openrent_parse_listings_def openrent_parse_card_def
          get_attr_def card_doc_def ex_card_def)
  have ot: "map listing_id (site_parse_listings OnTheMarket card_doc) = [''otm-42'']"
    by (simp add: onthemarket_parse_listings_def onthemarket_parse_card_def
          card_id_elem_def get_attr_def card_doc_def ex_card_def)
  have "\<forall>l\<in>set (site_parse_listings Zoopla card_doc). source l = ''zoopla''"
    using listing_id_prefix[of Zoopla card_doc] by simp
  then have src: "map source (site_parse_listings Zoopla card_doc) = [''zoopla'']"
    using z by (cases "site_parse_listings Zoopla card_doc") auto
  have "\<forall>l\<in>set (site_parse_listings Zoopla card_doc).
      \<forall>l'\<in>set (site_parse_listings Spareroom card_doc). listing_id l \<noteq> listing_id l'"
    using listing_id_prefix[of Zoopla card_doc] by blast
  then have apart: "set (map listing_id (site_parse_listings Zoopla card_doc))
     \<inter> set (map listing_id (site_parse_listings Spareroom card_doc)) = {}"
    by auto
  from z sp op ot src apart show ?thesis by blast
qed

end
